theory Spec2Isabelle
  imports Complex_Main
begin

section \<open>Exceptions\<close>

text \<open>
  Every \<^verbatim>\<open>raise\<close> of \<^verbatim>\<open>investpy/certificates.py\<close>, and every exception of a
  builtin the module calls, is a value of \<open>exc\<close>: the constructor is the Python exception
  class, the argument its message. A computation that may raise returns \<open>exc + 'a\<close>,
  with \<open>Inl\<close> for the exception.
\<close>

datatype exc =
    ValueError string
  | TypeError string
  | RuntimeError string
  | ConnectionError string
  | IndexError string
  | FileNotFoundError string
  | IOError string
  | AttributeError string
  | KeyError string
  | OverflowError string
  | ParserError string

section \<open>Calendar dates\<close>

text \<open>
  \<^verbatim>\<open>datetime.strptime(s, '%d/%m/%Y')\<close> yields a datetime at midnight, so only the
  calendar fields matter. Python compares datetimes field by field, year first.
\<close>

record date =
  year :: int
  month :: int
  day :: int

definition is_leap :: "int \<Rightarrow> bool" where
  "is_leap y = (y mod 4 = 0 \<and> (y mod 100 \<noteq> 0 \<or> y mod 400 = 0))"

definition days_in_month :: "int \<Rightarrow> int \<Rightarrow> int" where
  "days_in_month y m =
     (if m = 2 then (if is_leap y then 29 else 28)
      else if m = 4 \<or> m = 6 \<or> m = 9 \<or> m = 11 then 30
      else 31)"

definition valid_date :: "date \<Rightarrow> bool" where
  "valid_date d =
     (1 \<le> year d \<and> year d \<le> 9999 \<and> 1 \<le> month d \<and> month d \<le> 12 \<and>
      1 \<le> day d \<and> day d \<le> days_in_month (year d) (month d))"

definition date_less :: "date \<Rightarrow> date \<Rightarrow> bool" where
  "date_less a b =
     (year a < year b \<or>
      (year a = year b \<and> (month a < month b \<or> (month a = month b \<and> day a < day b))))"

definition date_le :: "date \<Rightarrow> date \<Rightarrow> bool" where
  "date_le a b = (\<not> date_less b a)"

text \<open>
  \<^verbatim>\<open>d.replace(year=y)\<close> builds a new datetime and raises ValueError when the year
  leaves 1..9999 or the day does not exist in that year (29 February).
\<close>

definition replace_year :: "date \<Rightarrow> int \<Rightarrow> exc + date" where
  "replace_year d y =
     (if y < 1 \<or> 9999 < y then Inl (ValueError ''year is out of range'')
      else if days_in_month y (month d) < day d then Inl (ValueError ''day is out of range for month'')
      else Inr (d\<lparr>year := y\<rparr>))"

section \<open>The date-range partitioner\<close>

text \<open>
  Lines 455--483 of \<^verbatim>\<open>get_certificate_historical_data\<close>:
  \<^verbatim>\<open>
    flag = True
    while flag is True:
        diff = end_date.year - start_date.year
        if diff > 20:
            obj = {'start': start_date.strftime('%m/%d/%Y'),
                   'end': start_date.replace(year=start_date.year + 20).strftime('%m/%d/%Y')}
            date_interval['intervals'].append(obj)
            start_date = start_date.replace(year=start_date.year + 20)
        else:
            obj = {'start': start_date.strftime('%m/%d/%Y'),
                   'end': end_date.strftime('%m/%d/%Y')}
            date_interval['intervals'].append(obj)
            flag = False
  \<close>
  An \<open>obj\<close> holds the two dates; the source stores their \<^verbatim>\<open>mm/dd/yyyy\<close> rendering,
  which is the same two dates as text. The list \<open>acc\<close> is \<^verbatim>\<open>date_interval['intervals']\<close>.
\<close>

record obj =
  obj_start :: date
  obj_end :: date

function date_intervals :: "date \<Rightarrow> date \<Rightarrow> obj list \<Rightarrow> exc + obj list" where
  "date_intervals start_date end_date acc =
     (let diff = year end_date - year start_date in
      if diff > 20 then
        (case replace_year start_date (year start_date + 20) of
           Inl e \<Rightarrow> Inl e
         | Inr nxt \<Rightarrow>
             date_intervals nxt end_date (acc @ [\<lparr>obj_start = start_date, obj_end = nxt\<rparr>]))
      else Inr (acc @ [\<lparr>obj_start = start_date, obj_end = end_date\<rparr>]))"
  by pat_completeness auto
termination
  by (relation "measure (\<lambda>(s, e, acc). nat (year e - year s))")
     (auto simp: replace_year_def split: if_splits)

declare date_intervals.simps [simp del]

text \<open>The span "at most 20 years": the end is not after the start moved 20 years on.\<close>

definition within_20_years :: "date \<Rightarrow> date \<Rightarrow> bool" where
  "within_20_years s e = date_le e (s\<lparr>year := year s + 20\<rparr>)"



section \<open>Python values and argument validation\<close>

text \<open>
  The public functions are dynamically typed: an argument may be \<^verbatim>\<open>None\<close>, a bool, an
  int or a str. \<open>truthy\<close> is Python's truth value (\<^verbatim>\<open>not x\<close> is its negation).
\<close>

datatype pyval = PyNone | PyBool bool | PyInt int | PyStr string

fun truthy :: "pyval \<Rightarrow> bool" where
  "truthy PyNone = False"
| "truthy (PyBool b) = b"
| "truthy (PyInt n) = (n \<noteq> 0)"
| "truthy (PyStr s) = (s \<noteq> [])"

fun is_str :: "pyval \<Rightarrow> bool" where
  "is_str (PyStr s) = True"
| "is_str v = False"

fun is_bool :: "pyval \<Rightarrow> bool" where
  "is_bool (PyBool b) = True"
| "is_bool v = False"

definition err_0100 :: string where
  "err_0100 = ''ERR#0100: certificate param is mandatory and should be a str.''"
definition err_0039 :: string where
  "err_0039 = ''ERR#0039: country can not be None, it should be a str.''"
definition err_0025 :: string where
  "err_0025 = ''ERR#0025: specified country value not valid.''"
definition err_0002 :: string where
  "err_0002 = ''ERR#0002: as_json argument can just be True or False, bool type.''"
definition err_0003 :: string where
  "err_0003 = ''ERR#0003: order argument can just be ascending (asc) or descending (desc), str type.''"
definition err_0073 :: string where
  "err_0073 = ''ERR#0073: interval value should be a str type and it can just be either 'Daily', 'Weekly' or 'Monthly'.''"
definition err_0011 :: string where
  "err_0011 = ''ERR#0011: incorrect from_date date format, it should be 'dd/mm/yyyy'.''"
definition err_0012 :: string where
  "err_0012 = ''ERR#0012: incorrect to_date format, it should be 'dd/mm/yyyy'.''"
definition err_0032 :: string where
  "err_0032 = ''ERR#0032: to_date should be greater than from_date, both formatted as 'dd/mm/yyyy'.''"
definition err_0096 :: string where
  "err_0096 = ''ERR#0096: certificates file not found or errored.''"
definition err_0102 :: string where
  "err_0102 = ''ERR#0102: certificate information unavailable or not found.''"
definition err_0004 :: string where
  "err_0004 = ''ERR#0004: data retrieval error while scraping.''"
definition list_index_out_of_range :: string where
  "list_index_out_of_range = ''list index out of range''"
definition no_objects_to_concatenate :: string where
  "no_objects_to_concatenate = ''No objects to concatenate''"

text \<open>
  Lines 219--244 and, word for word, 412--437: the checks on \<^verbatim>\<open>certificate\<close>,
  \<^verbatim>\<open>country\<close>, \<^verbatim>\<open>as_json\<close>, \<^verbatim>\<open>order\<close> and \<^verbatim>\<open>interval\<close>, in the source's order.
  When all pass, the values used later are known to be three strs and a bool.
\<close>

definition check_args ::
  "pyval \<Rightarrow> pyval \<Rightarrow> pyval \<Rightarrow> pyval \<Rightarrow> pyval \<Rightarrow> exc + (string \<times> string \<times> bool \<times> string)" where
  "check_args certificate country as_json order interval =
     (if \<not> truthy certificate then Inl (ValueError err_0100)
      else if \<not> is_str certificate then Inl (ValueError err_0100)
      else if country = PyNone then Inl (ValueError err_0039)
      else if country \<noteq> PyNone \<and> \<not> is_str country then Inl (ValueError err_0025)
      else if \<not> is_bool as_json then Inl (ValueError err_0002)
      else if order \<notin> set [PyStr ''ascending'', PyStr ''asc'', PyStr ''descending'', PyStr ''desc'']
        then Inl (ValueError err_0003)
      else if \<not> truthy interval then Inl (ValueError err_0073)
      else if \<not> is_str interval then Inl (ValueError err_0073)
      else if interval \<notin> set [PyStr ''Daily'', PyStr ''Weekly'', PyStr ''Monthly'']
        then Inl (ValueError err_0073)
      else (case (certificate, country, as_json, interval) of
              (PyStr c, PyStr k, PyBool b, PyStr i) \<Rightarrow> Inr (c, k, b, i)
            | _ \<Rightarrow> Inl (TypeError [])))"

section \<open>Library functions the module calls\<close>

text \<open>
  The module calls \<^verbatim>\<open>str.lower\<close>, \<^verbatim>\<open>str.strip\<close>, \<^verbatim>\<open>unidecode.unidecode\<close>,
  \<^verbatim>\<open>datetime.strptime(_, '%d/%m/%Y')\<close>, \<^verbatim>\<open>int\<close>, \<^verbatim>\<open>float\<close> and
  \<^verbatim>\<open>datetime.fromtimestamp(_).date()\<close>. They are parameters of the model, so every theorem
  holds for whatever these functions compute; \<open>None\<close> is the call raising. Floating-point
  values are an abstract type \<open>'f\<close>.
\<close>

record 'f pylib =
  str_lower :: "string \<Rightarrow> string"
  str_strip :: "string \<Rightarrow> string"
  unidecode :: "string \<Rightarrow> string"
  strptime_dmY :: "string \<Rightarrow> date option"
  py_int :: "string \<Rightarrow> int option"
  py_float :: "string \<Rightarrow> 'f option"
  fromtimestamp_date :: "int \<Rightarrow> date option"

text \<open>
  Lines 439--447: \<^verbatim>\<open>strptime\<close> inside \<^verbatim>\<open>try ... except ValueError\<close>, which re-raises
  with the module's message; an argument that is not a str raises TypeError, which the
  \<^verbatim>\<open>except\<close> clause does not catch.
\<close>

definition parse_date :: "'f pylib \<Rightarrow> pyval \<Rightarrow> string \<Rightarrow> exc + date" where
  "parse_date lib v msg =
     (case v of
        PyStr s \<Rightarrow> (case strptime_dmY lib s of None \<Rightarrow> Inl (ValueError msg) | Some d \<Rightarrow> Inr d)
      | _ \<Rightarrow> Inl (TypeError ''strptime() argument 1 must be str''))"

section \<open>The instrument catalog and name resolution\<close>

text \<open>
  A row of \<^verbatim>\<open>certificates.csv\<close> as \<^verbatim>\<open>pd.read_csv\<close> loads it; the fetch functions read the
  columns \<^verbatim>\<open>country\<close>, \<^verbatim>\<open>name\<close>, \<^verbatim>\<open>symbol\<close> and \<^verbatim>\<open>id\<close> only. The file's rows are a
  parameter \<open>csv\<close> (\<open>None\<close>: the resource does not exist).
\<close>

record certificate_row =
  row_country :: string
  row_name :: string
  row_symbol :: string
  row_id :: int

text \<open>
  \<^verbatim>\<open>Series.idxmax()\<close> on a boolean column: the position of the first maximum, that is of
  the first \<^verbatim>\<open>True\<close>, and of the first row when every entry is \<^verbatim>\<open>False\<close>.
\<close>

definition idxmax :: "bool list \<Rightarrow> nat" where
  "idxmax bs = (if True \<in> set bs then length (takeWhile Not bs) else 0)"

text \<open>
  Lines 246--271 and 488--513.
  Modelled from the spec: \<^verbatim>\<open>get_certificate_countries()\<close> lives in
  \<^verbatim>\<open>investpy.data.certificates_data\<close>; it returns the list of normalized country names,
  here the parameter \<open>countries\<close>.
  \<^verbatim>\<open>pd.read_csv\<close> returns a DataFrame, never \<^verbatim>\<open>None\<close>, so the IOError of lines 253--254
  and 495--496 is never raised. The result is \<^verbatim>\<open>(symbol, id_, name)\<close>.
\<close>

definition resolve ::
  "'f pylib \<Rightarrow> certificate_row list option \<Rightarrow> string list \<Rightarrow> string \<Rightarrow> string
   \<Rightarrow> exc + (string \<times> int \<times> string)" where
  "resolve lib csv countries country certificate0 =
     (case csv of
        None \<Rightarrow> Inl (FileNotFoundError err_0096)
      | Some all_rows \<Rightarrow>
          if unidecode lib (str_lower lib country) \<notin> set countries
          then Inl (RuntimeError (''ERR#0034: country '' @ str_lower lib country
                                  @ '' not found, check if it is correct.''))
          else
            let certificates = filter (\<lambda>r. row_country r = unidecode lib (str_lower lib country)) all_rows;
                certificate = str_lower lib (str_strip lib certificate0)
            in if unidecode lib certificate
                    \<notin> set (map (\<lambda>r. unidecode lib (str_lower lib (row_name r))) certificates)
               then Inl (RuntimeError (''ERR#0101: certificate '' @ certificate
                                       @ '' not found, check if it is correct.''))
               else
                 let matches = map (\<lambda>r. str_lower lib (row_name r) = certificate) certificates
                 in if certificates = []
                    then Inl (ValueError ''attempt to get argmax of an empty sequence'')
                    else let r = certificates ! idxmax matches
                         in Inr (row_symbol r, row_id r, row_name r))"


section \<open>Provider responses and price records\<close>

text \<open>
  A table cell (\<^verbatim>\<open>td\<close>) is read twice: \<^verbatim>\<open>text_content()\<close> and
  \<^verbatim>\<open>get('data-real-value')\<close>, which is \<^verbatim>\<open>None\<close> when the attribute is absent. A table
  row (\<^verbatim>\<open>tr\<close>) is the list \<^verbatim>\<open>elements_.xpath(".//td")\<close>.
  Of a response the code reads \<^verbatim>\<open>status_code\<close> and \<^verbatim>\<open>text\<close>; \<open>curr_table\<close> is what
  \<^verbatim>\<open>fromstring(req.text).xpath(".//table[@id='curr_table']/tbody/tr")\<close> evaluates to for
  that text: the rows, or the exception lxml raises (ParserError for an empty document).
\<close>

record td =
  text_content :: string
  data_real_value :: "string option"

type_synonym tr = "td list"

record response =
  status_code :: int
  resp_text :: string
  curr_table :: "exc + tr list"

text \<open>
  The form fields of a POST that depend on the call. The random \<^verbatim>\<open>smlID\<close>, the random
  User-Agent and the constant fields and headers are left out. \<open>req_st_date\<close> and
  \<open>req_end_date\<close> are the window's dates (sent as \<^verbatim>\<open>mm/dd/yyyy\<close> text), absent in a
  recent-data request.
\<close>

record request =
  req_curr_id :: int
  req_header :: string
  req_st_date :: "date option"
  req_end_date :: "date option"
  req_interval_sec :: string

text \<open>
  Modelled from the spec: the class \<^verbatim>\<open>Data\<close> of \<^verbatim>\<open>investpy.utils.data\<close> is not part of
  the source at hand; it is the spec's PricePoint (date, open, high, low, close), built
  as \<^verbatim>\<open>Data(date, open, high, low, close, None, None)\<close> with the arguments in this order.
  Its methods \<^verbatim>\<open>certificate_as_json\<close> and \<^verbatim>\<open>certificate_to_dict\<close> render one record as
  one JSON object or one table row; an output below holds the records themselves.
\<close>

datatype 'f Data =
  Data (d_date: date) (d_open: 'f) (d_high: 'f) (d_low: 'f) (d_close: 'f)

datatype 'f returned =
    JsonText string string "'f Data list"
  | DataFrame "'f Data list"

text \<open>\<^verbatim>\<open>str(n)\<close> for an int: decimal digits, with a minus sign when negative.\<close>

fun digits :: "nat \<Rightarrow> string" where
  "digits n =
     (if n < 10 then [''0123456789'' ! n] else digits (n div 10) @ [''0123456789'' ! (n mod 10)])"

declare digits.simps [simp del]

definition str_int :: "int \<Rightarrow> string" where
  "str_int i = (if i < 0 then CHR ''-'' # digits (nat (- i)) else digits (nat i))"

definition err_0015 :: "int \<Rightarrow> string" where
  "err_0015 code = ''ERR#0015: error '' @ str_int code @ '', try again later.''"

text \<open>\<^verbatim>\<open>info[i]\<close>: IndexError beyond the end of the list.\<close>

definition get_info :: "string option list \<Rightarrow> nat \<Rightarrow> exc + string option" where
  "get_info info i =
     (if i < length info then Inr (info ! i) else Inl (IndexError list_index_out_of_range))"

text \<open>\<^verbatim>\<open>s.replace(',', '')\<close>\<close>

definition replace_commas :: "string \<Rightarrow> string" where
  "replace_commas s = filter (\<lambda>c. c \<noteq> CHR '','') s"

text \<open>\<^verbatim>\<open>float(info[i].replace(',', ''))\<close>\<close>

definition parse_price :: "'f pylib \<Rightarrow> string option list \<Rightarrow> nat \<Rightarrow> exc + 'f" where
  "parse_price lib info i =
     (case get_info info i of
        Inl e \<Rightarrow> Inl e
      | Inr None \<Rightarrow> Inl (AttributeError ''NoneType object has no attribute replace'')
      | Inr (Some s) \<Rightarrow>
          (case py_float lib (replace_commas s) of
             None \<Rightarrow> Inl (ValueError ''could not convert string to float'')
           | Some x \<Rightarrow> Inr x))"

text \<open>
  \<^verbatim>\<open>datetime.strptime(str(datetime.fromtimestamp(int(info[0])).date()), '%Y-%m-%d')\<close>:
  the calendar date of the timestamp, at midnight. \<^verbatim>\<open>fromtimestamp\<close> raises ValueError
  when the year of the timestamp is outside 1..9999.
\<close>

definition parse_timestamp :: "'f pylib \<Rightarrow> string option list \<Rightarrow> exc + date" where
  "parse_timestamp lib info =
     (case get_info info 0 of
        Inl e \<Rightarrow> Inl e
      | Inr None \<Rightarrow> Inl (TypeError ''int() argument must be a string or a number, not NoneType'')
      | Inr (Some s) \<Rightarrow>
          (case py_int lib s of
             None \<Rightarrow> Inl (ValueError ''invalid literal for int() with base 10'')
           | Some n \<Rightarrow>
               (case fromtimestamp_date lib n of
                  None \<Rightarrow> Inl (ValueError ''year is out of range'')
                | Some d \<Rightarrow> Inr d)))"

text \<open>
  Lines 313--321 and, word for word, 571--579: the date from \<^verbatim>\<open>info[0]\<close>, then close,
  open, high, low from \<^verbatim>\<open>info[1]\<close> .. \<^verbatim>\<open>info[4]\<close>, then
  \<^verbatim>\<open>Data(certificate_date, certificate_open, certificate_high, certificate_low, certificate_close, None, None)\<close>.
\<close>

definition make_data :: "'f pylib \<Rightarrow> string option list \<Rightarrow> exc + 'f Data" where
  "make_data lib info =
     (case parse_timestamp lib info of Inl e \<Rightarrow> Inl e | Inr certificate_date \<Rightarrow>
     (case parse_price lib info 1 of Inl e \<Rightarrow> Inl e | Inr certificate_close \<Rightarrow>
     (case parse_price lib info 2 of Inl e \<Rightarrow> Inl e | Inr certificate_open \<Rightarrow>
     (case parse_price lib info 3 of Inl e \<Rightarrow> Inl e | Inr certificate_high \<Rightarrow>
     (case parse_price lib info 4 of Inl e \<Rightarrow> Inl e | Inr certificate_low \<Rightarrow>
        Inr (Data certificate_date certificate_open certificate_high certificate_low
               certificate_close))))))"

text \<open>Lines 323--326 and 582--585: \<^verbatim>\<open>result[::-1]\<close> for an ascending order.\<close>

definition apply_order :: "pyval \<Rightarrow> 'a list \<Rightarrow> 'a list" where
  "apply_order order result =
     (if order \<in> set [PyStr ''ascending'', PyStr ''asc''] then rev result
      else if order \<in> set [PyStr ''descending'', PyStr ''desc''] then result
      else result)"

text \<open>
  \<^verbatim>\<open>pd.DataFrame.from_records(records)\<close> followed by \<^verbatim>\<open>set_index('Date')\<close>: the rows in
  the order of the records; with no record there is no \<^verbatim>\<open>Date\<close> column and pandas raises
  KeyError.
\<close>

definition to_frame :: "'f Data list \<Rightarrow> exc + 'f Data list" where
  "to_frame result = (if result = [] then Inl (KeyError ''Date'') else Inr result)"

section \<open>The values fixed before the first request\<close>

text \<open>
  The local variables that the request loop reads: \<^verbatim>\<open>name\<close>, \<^verbatim>\<open>id_\<close>, \<^verbatim>\<open>header\<close>,
  \<^verbatim>\<open>as_json\<close>, \<^verbatim>\<open>order\<close>, \<^verbatim>\<open>interval\<close> and \<^verbatim>\<open>date_interval['intervals']\<close>.
\<close>

record locals =
  l_name :: string
  l_id :: int
  l_header :: string
  l_as_json :: bool
  l_order :: pyval
  l_interval :: string
  l_intervals :: "obj list"

section \<open>get_certificate_recent_data\<close>

text \<open>Lines 219--271: everything before the request.\<close>

definition recent_prelude ::
  "'f pylib \<Rightarrow> certificate_row list option \<Rightarrow> string list
   \<Rightarrow> pyval \<Rightarrow> pyval \<Rightarrow> pyval \<Rightarrow> pyval \<Rightarrow> pyval \<Rightarrow> exc + locals" where
  "recent_prelude lib csv countries certificate country as_json order interval =
     (case check_args certificate country as_json order interval of
        Inl e \<Rightarrow> Inl e
      | Inr (c, k, b, i) \<Rightarrow>
          (case resolve lib csv countries k c of
             Inl e \<Rightarrow> Inl e
           | Inr (symbol, id_, name) \<Rightarrow>
               Inr \<lparr>l_name = name, l_id = id_, l_header = symbol @ '' Historical Data'',
                    l_as_json = b, l_order = order, l_interval = i, l_intervals = []\<rparr>))"

text \<open>Lines 304--321: one iteration of the loop over the table rows.\<close>

definition recent_row :: "'f pylib \<Rightarrow> tr \<Rightarrow> 'f Data list \<Rightarrow> exc + 'f Data list" where
  "recent_row lib elements result =
     (case elements of
        [] \<Rightarrow> Inl (IndexError list_index_out_of_range)
      | td0 # _ \<Rightarrow>
          if text_content td0 = ''No results found'' then Inl (IndexError err_0102)
          else (case make_data lib (map data_real_value elements) of
                  Inl e \<Rightarrow> Inl e
                | Inr d \<Rightarrow> Inr (result @ [d])))"

fun recent_rows :: "'f pylib \<Rightarrow> tr list \<Rightarrow> 'f Data list \<Rightarrow> exc + 'f Data list" where
  "recent_rows lib [] result = Inr result"
| "recent_rows lib (elements # path) result =
     (case recent_row lib elements result of
        Inl e \<Rightarrow> Inl e
      | Inr result' \<Rightarrow> recent_rows lib path result')"

text \<open>Lines 295--342: what happens to the response.\<close>

definition recent_response :: "'f pylib \<Rightarrow> locals \<Rightarrow> response \<Rightarrow> exc + 'f returned" where
  "recent_response lib l req =
     (if status_code req \<noteq> 200 then Inl (ConnectionError (err_0015 (status_code req)))
      else case curr_table req of
        Inl e \<Rightarrow> Inl e
      | Inr path \<Rightarrow>
          if path \<noteq> [] then
            (case recent_rows lib path [] of
               Inl e \<Rightarrow> Inl e
             | Inr result0 \<Rightarrow>
                 let result = apply_order (l_order l) result0
                 in if l_as_json l then Inr (JsonText (l_name l) ''recent'' result)
                    else (case to_frame result of Inl e \<Rightarrow> Inl e | Inr df \<Rightarrow> Inr (DataFrame df)))
          else Inl (RuntimeError err_0004))"

text \<open>
  The whole function. The network is \<open>net\<close>: the response to the \<open>k\<close>-th POST of the call.
  The result is the list of requests posted, in order, and the value returned or the
  exception raised.
\<close>

definition get_certificate_recent_data ::
  "'f pylib \<Rightarrow> certificate_row list option \<Rightarrow> string list \<Rightarrow> (nat \<Rightarrow> response)
   \<Rightarrow> pyval \<Rightarrow> pyval \<Rightarrow> pyval \<Rightarrow> pyval \<Rightarrow> pyval \<Rightarrow> request list \<times> (exc + 'f returned)" where
  "get_certificate_recent_data lib csv countries net certificate country as_json order interval =
     (case recent_prelude lib csv countries certificate country as_json order interval of
        Inl e \<Rightarrow> ([], Inl e)
      | Inr l \<Rightarrow>
          ([\<lparr>req_curr_id = l_id l, req_header = l_header l, req_st_date = None,
             req_end_date = None, req_interval_sec = l_interval l\<rparr>],
           recent_response lib l (net 0)))"


section \<open>get_certificate_historical_data\<close>

text \<open>Lines 412--513: everything before the first request.\<close>

definition historical_prelude ::
  "'f pylib \<Rightarrow> certificate_row list option \<Rightarrow> string list
   \<Rightarrow> pyval \<Rightarrow> pyval \<Rightarrow> pyval \<Rightarrow> pyval \<Rightarrow> pyval \<Rightarrow> pyval \<Rightarrow> pyval \<Rightarrow> exc + locals" where
  "historical_prelude lib csv countries certificate country from_date to_date as_json order interval =
     (case check_args certificate country as_json order interval of
        Inl e \<Rightarrow> Inl e
      | Inr (c, k, b, i) \<Rightarrow>
     (case parse_date lib from_date err_0011 of
        Inl e \<Rightarrow> Inl e
      | Inr start_date \<Rightarrow>
     (case parse_date lib to_date err_0012 of
        Inl e \<Rightarrow> Inl e
      | Inr end_date \<Rightarrow>
          if date_le end_date start_date then Inl (ValueError err_0032)
          else
     (case date_intervals start_date end_date [] of
        Inl e \<Rightarrow> Inl e
      | Inr intervals \<Rightarrow>
     (case resolve lib csv countries k c of
        Inl e \<Rightarrow> Inl e
      | Inr (symbol, id_, name) \<Rightarrow>
          Inr \<lparr>l_name = name, l_id = id_, l_header = symbol @ '' Historical Data'',
               l_as_json = b, l_order = order, l_interval = i, l_intervals = intervals\<rparr>)))))"

text \<open>
  Lines 556--579: one iteration of the loop over the table rows of a window. The state is
  \<^verbatim>\<open>(data_flag, result)\<close>; the flag is written before it is read.
\<close>

definition hist_row ::
  "'f pylib \<Rightarrow> nat \<Rightarrow> nat \<Rightarrow> tr \<Rightarrow> bool \<times> 'f Data list \<Rightarrow> exc + bool \<times> 'f Data list" where
  "hist_row lib interval_counter interval_limit elements st =
     (case elements of
        [] \<Rightarrow> Inl (IndexError list_index_out_of_range)
      | td0 # _ \<Rightarrow>
          (case (if text_content td0 = ''No results found''
                 then (if interval_counter < interval_limit then Inr False
                       else Inl (IndexError err_0102))
                 else Inr True) of
             Inl e \<Rightarrow> Inl e
           | Inr data_flag \<Rightarrow>
               if data_flag then
                 (case make_data lib (map data_real_value elements) of
                    Inl e \<Rightarrow> Inl e
                  | Inr d \<Rightarrow> Inr (data_flag, snd st @ [d]))
               else Inr (data_flag, snd st)))"

fun hist_rows ::
  "'f pylib \<Rightarrow> nat \<Rightarrow> nat \<Rightarrow> tr list \<Rightarrow> bool \<times> 'f Data list \<Rightarrow> exc + bool \<times> 'f Data list" where
  "hist_rows lib interval_counter interval_limit [] st = Inr st"
| "hist_rows lib interval_counter interval_limit (elements # path) st =
     (case hist_row lib interval_counter interval_limit elements st of
        Inl e \<Rightarrow> Inl e
      | Inr st' \<Rightarrow> hist_rows lib interval_counter interval_limit path st')"

text \<open>
  Lines 544--602: what one window's response does to \<^verbatim>\<open>(final, data_flag)\<close>. An element
  of \<open>final\<close> is the series of one window: the records of the JSON object, or of the
  DataFrame, appended at line 594 or 599.
\<close>

definition hist_window ::
  "'f pylib \<Rightarrow> locals \<Rightarrow> nat \<Rightarrow> nat \<Rightarrow> response \<Rightarrow> 'f Data list list \<times> bool
   \<Rightarrow> exc + 'f Data list list \<times> bool" where
  "hist_window lib l interval_counter interval_limit req st =
     (if status_code req \<noteq> 200 then Inl (ConnectionError (err_0015 (status_code req)))
      else if resp_text req = [] then Inr st
      else case curr_table req of
        Inl e \<Rightarrow> Inl e
      | Inr path \<Rightarrow>
          if path \<noteq> [] then
            (case hist_rows lib interval_counter interval_limit path (snd st, []) of
               Inl e \<Rightarrow> Inl e
             | Inr (data_flag, result0) \<Rightarrow>
                 if data_flag then
                   (let result = apply_order (l_order l) result0
                    in if l_as_json l then Inr (fst st @ [result], data_flag)
                       else (case to_frame result of
                               Inl e \<Rightarrow> Inl e
                             | Inr df \<Rightarrow> Inr (fst st @ [df], data_flag)))
                 else Inr (fst st, data_flag))
          else Inl (RuntimeError err_0004))"

text \<open>
  Lines 517--602: the loop over the windows. Each iteration posts one request, whose
  response is \<open>net\<close> at the number of requests posted before it.
\<close>

fun hist_loop ::
  "'f pylib \<Rightarrow> (nat \<Rightarrow> response) \<Rightarrow> locals \<Rightarrow> obj list \<Rightarrow> nat \<Rightarrow> 'f Data list list \<times> bool
   \<Rightarrow> request list \<Rightarrow> request list \<times> (exc + 'f Data list list \<times> bool)" where
  "hist_loop lib net l [] interval_counter st posts = (posts, Inr st)"
| "hist_loop lib net l (w # ws) interval_counter st posts =
     (let posts' = posts @ [\<lparr>req_curr_id = l_id l, req_header = l_header l,
                             req_st_date = Some (obj_start w), req_end_date = Some (obj_end w),
                             req_interval_sec = l_interval l\<rparr>]
      in case hist_window lib l (interval_counter + 1) (length (l_intervals l))
                (net (length posts)) st of
           Inl e \<Rightarrow> (posts', Inl e)
         | Inr st' \<Rightarrow> hist_loop lib net l ws (interval_counter + 1) st' posts')"

text \<open>
  Lines 604--607: \<^verbatim>\<open>json.dumps(final[0])\<close>, or \<^verbatim>\<open>pd.concat(final)\<close>, which raises
  ValueError on an empty list.
\<close>

definition emit :: "locals \<Rightarrow> 'f Data list list \<Rightarrow> exc + 'f returned" where
  "emit l final =
     (if l_as_json l then
        (case final of
           [] \<Rightarrow> Inl (IndexError list_index_out_of_range)
         | json_ # _ \<Rightarrow> Inr (JsonText (l_name l) ''historical'' json_))
      else if final = [] then Inl (ValueError no_objects_to_concatenate)
      else Inr (DataFrame (concat final)))"

definition get_certificate_historical_data ::
  "'f pylib \<Rightarrow> certificate_row list option \<Rightarrow> string list \<Rightarrow> (nat \<Rightarrow> response)
   \<Rightarrow> pyval \<Rightarrow> pyval \<Rightarrow> pyval \<Rightarrow> pyval \<Rightarrow> pyval \<Rightarrow> pyval \<Rightarrow> pyval
   \<Rightarrow> request list \<times> (exc + 'f returned)" where
  "get_certificate_historical_data lib csv countries net certificate country from_date to_date
       as_json order interval =
     (case historical_prelude lib csv countries certificate country from_date to_date
             as_json order interval of
        Inl e \<Rightarrow> ([], Inl e)
      | Inr l \<Rightarrow>
          (case hist_loop lib net l (l_intervals l) 0 ([], False) [] of
             (posts, Inl e) \<Rightarrow> (posts, Inl e)
           | (posts, Inr (final, data_flag)) \<Rightarrow> (posts, emit l final)))"


section \<open>An instance of the library functions\<close>

text \<open>
  The examples below run the model with this instance of \<open>pylib\<close>, on strs whose code
  points are below 256 (one \<open>char\<close> each) and with the machine's time zone at UTC.
  \<^item> \<open>lower_latin1\<close> is \<^verbatim>\<open>str.lower\<close> and \<open>strip_latin1\<close> is \<^verbatim>\<open>str.strip\<close> on such strs;
  \<^item> \<open>unidecode_latin1\<close> is \<^verbatim>\<open>unidecode\<close> on ASCII and on the accented letters
    U+00C0 .. U+00FF (other code points are left as they are);
  \<^item> \<open>strptime_latin1\<close> reads \<^verbatim>\<open>d/m/yyyy\<close> with one or two digits for day and month and
    four for the year, and rejects a date that does not exist;
  \<^item> \<open>int_decimal\<close> reads an optional minus sign and decimal digits;
  \<^item> \<open>float_decimal\<close> reads \<^verbatim>\<open>digits\<close>, \<^verbatim>\<open>digits.digits\<close>, \<^verbatim>\<open>digits.\<close> or \<^verbatim>\<open>.digits\<close>
    as the real number written (the float is that number when it is a binary64 value,
    as for the literals used below);
  \<^item> \<open>utc_date\<close> is the calendar date of a Unix timestamp in UTC.
\<close>

definition lower_chr :: "char \<Rightarrow> char" where
  "lower_chr c =
     (let n = (of_char c :: nat)
      in if (65 \<le> n \<and> n \<le> 90) \<or> (192 \<le> n \<and> n \<le> 222 \<and> n \<noteq> 215) then char_of (n + 32) else c)"

definition lower_latin1 :: "string \<Rightarrow> string" where
  "lower_latin1 s = map lower_chr s"

definition is_space :: "char \<Rightarrow> bool" where
  "is_space c =
     (let n = (of_char c :: nat)
      in (9 \<le> n \<and> n \<le> 13) \<or> (28 \<le> n \<and> n \<le> 32) \<or> n = 133 \<or> n = 160)"

definition strip_latin1 :: "string \<Rightarrow> string" where
  "strip_latin1 s = rev (dropWhile is_space (rev (dropWhile is_space s)))"

definition unidecode_chr :: "char \<Rightarrow> string" where
  "unidecode_chr c =
     (let n = (of_char c :: nat)
      in if n < 192 then [c]
         else if n \<le> 197 then ''A'' else if n = 198 then ''AE'' else if n = 199 then ''C''
         else if n \<le> 203 then ''E'' else if n \<le> 207 then ''I'' else if n = 208 then ''D''
         else if n = 209 then ''N'' else if n \<le> 214 then ''O'' else if n = 215 then ''x''
         else if n = 216 then ''O'' else if n \<le> 220 then ''U'' else if n = 221 then ''Y''
         else if n = 222 then ''Th'' else if n = 223 then ''ss''
         else if n \<le> 229 then ''a'' else if n = 230 then ''ae'' else if n = 231 then ''c''
         else if n \<le> 235 then ''e'' else if n \<le> 239 then ''i'' else if n = 240 then ''d''
         else if n = 241 then ''n'' else if n \<le> 246 then ''o'' else if n = 247 then ''/''
         else if n = 248 then ''o'' else if n \<le> 252 then ''u'' else if n = 253 then ''y''
         else if n = 254 then ''th'' else ''y'')"

definition unidecode_latin1 :: "string \<Rightarrow> string" where
  "unidecode_latin1 s = concat (map unidecode_chr s)"

definition is_digit :: "char \<Rightarrow> bool" where
  "is_digit c = (48 \<le> (of_char c :: nat) \<and> (of_char c :: nat) \<le> 57)"

definition decimal_int :: "string \<Rightarrow> int" where
  "decimal_int s = foldl (\<lambda>a c. 10 * a + (of_char c - 48)) 0 s"

definition all_digits :: "string \<Rightarrow> bool" where
  "all_digits s = (s \<noteq> [] \<and> list_all is_digit s)"

definition int_decimal :: "string \<Rightarrow> int option" where
  "int_decimal s =
     (if s \<noteq> [] \<and> hd s = CHR ''-''
      then (if all_digits (tl s) then Some (- decimal_int (tl s)) else None)
      else (if all_digits s then Some (decimal_int s) else None))"

definition float_decimal :: "string \<Rightarrow> real option" where
  "float_decimal s =
     (let a = takeWhile is_digit s; r = dropWhile is_digit s
      in if r = [] then (if a = [] then None else Some (real_of_int (decimal_int a)))
         else if hd r = CHR ''.'' \<and> list_all is_digit (tl r) \<and> (a \<noteq> [] \<or> tl r \<noteq> [])
           then Some (real_of_int (decimal_int (a @ tl r)) / 10 ^ length (tl r))
         else None)"

definition strptime_latin1 :: "string \<Rightarrow> date option" where
  "strptime_latin1 s =
     (let d = takeWhile is_digit s; r1 = dropWhile is_digit s;
          m = takeWhile is_digit (tl r1); r2 = dropWhile is_digit (tl r1);
          y = tl r2;
          dt = \<lparr>year = decimal_int y, month = decimal_int m, day = decimal_int d\<rparr>
      in if r1 \<noteq> [] \<and> hd r1 = CHR ''/'' \<and> r2 \<noteq> [] \<and> hd r2 = CHR ''/''
            \<and> length d \<in> {1, 2} \<and> length m \<in> {1, 2} \<and> length y = 4 \<and> list_all is_digit y
            \<and> valid_date dt
         then Some dt else None)"

definition utc_date :: "int \<Rightarrow> date option" where
  "utc_date t =
     (let z = t div 86400 + 719468;
          era = z div 146097;
          doe = z - era * 146097;
          yoe = (doe - doe div 1460 + doe div 36524 - doe div 146096) div 365;
          doy = doe - (365 * yoe + yoe div 4 - yoe div 100);
          mp = (5 * doy + 2) div 153;
          d = doy - (153 * mp + 2) div 5 + 1;
          m = (if mp < 10 then mp + 3 else mp - 9);
          y = yoe + era * 400 + (if m \<le> 2 then 1 else 0)
      in if 1 \<le> y \<and> y \<le> 9999 then Some \<lparr>year = y, month = m, day = d\<rparr> else None)"

definition latin1_utc :: "real pylib" where
  "latin1_utc =
     \<lparr>str_lower = lower_latin1, str_strip = strip_latin1, unidecode = unidecode_latin1,
      strptime_dmY = strptime_latin1, py_int = int_decimal, py_float = float_decimal,
      fromtimestamp_date = utc_date\<rparr>"


section \<open>Notions used in the statements\<close>

text \<open>An argument list that passes every check on its types and values.\<close>

definition valid_arguments :: "pyval \<Rightarrow> pyval \<Rightarrow> pyval \<Rightarrow> pyval \<Rightarrow> pyval \<Rightarrow> bool" where
  "valid_arguments certificate country as_json order interval =
     (is_str certificate \<and> certificate \<noteq> PyStr [] \<and> is_str country \<and> is_bool as_json
      \<and> order \<in> {PyStr ''ascending'', PyStr ''asc'', PyStr ''descending'', PyStr ''desc''}
      \<and> interval \<in> {PyStr ''Daily'', PyStr ''Weekly'', PyStr ''Monthly''})"

text \<open>Two well-formed \<^verbatim>\<open>dd/mm/yyyy\<close> strs, the first date before the second.\<close>

definition valid_dates :: "'f pylib \<Rightarrow> pyval \<Rightarrow> pyval \<Rightarrow> bool" where
  "valid_dates lib from_date to_date =
     (case (from_date, to_date) of
        (PyStr f, PyStr t) \<Rightarrow>
          (case (strptime_dmY lib f, strptime_dmY lib t) of
             (Some s, Some e) \<Rightarrow> date_less s e
           | _ \<Rightarrow> False)
      | _ \<Rightarrow> False)"

text \<open>The same returned value with its sequence of records reversed.\<close>

fun rev_returned :: "'f returned \<Rightarrow> 'f returned" where
  "rev_returned (JsonText name key records) = JsonText name key (rev records)"
| "rev_returned (DataFrame records) = DataFrame (rev records)"

definition rev_outcome :: "request list \<times> (exc + 'f returned) \<Rightarrow> request list \<times> (exc + 'f returned)" where
  "rev_outcome r = (fst r, map_sum id rev_returned (snd r))"

text \<open>
  The list \<^verbatim>\<open>final\<close> of \<^verbatim>\<open>get_certificate_historical_data\<close> when its loop ends: one
  series for each window that contributed, in the order of the windows; or the exception
  raised before that.
\<close>

definition historical_final ::
  "'f pylib \<Rightarrow> certificate_row list option \<Rightarrow> string list \<Rightarrow> (nat \<Rightarrow> response)
   \<Rightarrow> pyval \<Rightarrow> pyval \<Rightarrow> pyval \<Rightarrow> pyval \<Rightarrow> pyval \<Rightarrow> pyval \<Rightarrow> pyval
   \<Rightarrow> exc + 'f Data list list" where
  "historical_final lib csv countries net certificate country from_date to_date
       as_json order interval =
     (case historical_prelude lib csv countries certificate country from_date to_date
             as_json order interval of
        Inl e \<Rightarrow> Inl e
      | Inr l \<Rightarrow>
          (case hist_loop lib net l (l_intervals l) 0 ([], False) [] of
             (posts, Inl e) \<Rightarrow> Inl e
           | (posts, Inr (final, data_flag)) \<Rightarrow> Inr final))"

section \<open>Example data\<close>

text \<open>
  A catalog of two French certificates, the second with an accented name
  (\<open>CHR 0xE9\<close> is U+00E9), and table rows as the provider sends them: a data row has the
  cells date, price (close), open, high, low, each with its \<^verbatim>\<open>data-real-value\<close>; the
  row that reports no data has one cell.
\<close>

definition societe_x :: string where
  "societe_x = ''Soci'' @ [CHR 0xE9] @ ''t'' @ [CHR 0xE9] @ '' X''"

definition example_csv :: "certificate_row list option" where
  "example_csv =
     Some [\<lparr>row_country = ''france'', row_name = ''Example Cert'', row_symbol = ''EX1'', row_id = 123\<rparr>,
           \<lparr>row_country = ''france'', row_name = societe_x, row_symbol = ''SOCX'', row_id = 456\<rparr>]"

definition example_countries :: "string list" where
  "example_countries = [''france'', ''germany'']"

definition data_tr :: "string \<Rightarrow> string \<Rightarrow> string \<Rightarrow> string \<Rightarrow> string \<Rightarrow> tr" where
  "data_tr ts cl op hi lo =
     [\<lparr>text_content = ts, data_real_value = Some ts\<rparr>,
      \<lparr>text_content = cl, data_real_value = Some cl\<rparr>,
      \<lparr>text_content = op, data_real_value = Some op\<rparr>,
      \<lparr>text_content = hi, data_real_value = Some hi\<rparr>,
      \<lparr>text_content = lo, data_real_value = Some lo\<rparr>]"

definition no_results_tr :: tr where
  "no_results_tr = [\<lparr>text_content = ''No results found'', data_real_value = None\<rparr>]"

definition page :: "tr list \<Rightarrow> response" where
  "page rows = \<lparr>status_code = 200, resp_text = ''<table id=curr_table>'', curr_table = Inr rows\<rparr>"

definition empty_page :: response where
  "empty_page =
     \<lparr>status_code = 200, resp_text = [], curr_table = Inl (ParserError ''Document is empty'')\<rparr>"

definition error_page :: "int \<Rightarrow> response" where
  "error_page code = \<lparr>status_code = code, resp_text = ''error'', curr_table = Inr []\<rparr>"

text \<open>2005-06-01, 2012-06-01, 2018-06-01 and 2018-01-02, at midnight UTC.\<close>

definition tr_2005 :: tr where
  "tr_2005 = data_tr ''1117584000'' ''1,050.5'' ''1,000'' ''1,100'' ''990''"

definition tr_2012 :: tr where
  "tr_2012 = data_tr ''1338508800'' ''7.5'' ''7'' ''8'' ''6.5''"

definition tr_2018_06 :: tr where
  "tr_2018_06 = data_tr ''1527811200'' ''10.5'' ''10'' ''11'' ''9''"

definition tr_2018_01 :: tr where
  "tr_2018_01 = data_tr ''1514851200'' ''5.5'' ''5'' ''6'' ''4''"

text \<open>The records these four rows stand for.\<close>

definition rec_2005 :: "real Data" where
  "rec_2005 = Data \<lparr>year = 2005, month = 6, day = 1\<rparr> 1000 1100 990 1050.5"

definition rec_2012 :: "real Data" where
  "rec_2012 = Data \<lparr>year = 2012, month = 6, day = 1\<rparr> 7 8 6.5 7.5"

definition rec_2018_06 :: "real Data" where
  "rec_2018_06 = Data \<lparr>year = 2018, month = 6, day = 1\<rparr> 10 11 9 10.5"

definition rec_2018_01 :: "real Data" where
  "rec_2018_01 = Data \<lparr>year = 2018, month = 1, day = 2\<rparr> 5 6 4 5.5"

text \<open>
  The local variables after the checks, for the certificate \<^verbatim>\<open>Example Cert\<close> of
  \<^verbatim>\<open>france\<close> at a daily interval.
\<close>

definition example_locals :: "bool \<Rightarrow> pyval \<Rightarrow> obj list \<Rightarrow> locals" where
  "example_locals b ord ws =
     \<lparr>l_name = ''Example Cert'', l_id = 123, l_header = ''EX1 Historical Data'',
      l_as_json = b, l_order = ord, l_interval = ''Daily'', l_intervals = ws\<rparr>"

definition windows_1990_2015 :: "obj list" where
  "windows_1990_2015 =
     [\<lparr>obj_start = \<lparr>year = 1990, month = 1, day = 1\<rparr>, obj_end = \<lparr>year = 2010, month = 1, day = 1\<rparr>\<rparr>,
      \<lparr>obj_start = \<lparr>year = 2010, month = 1, day = 1\<rparr>, obj_end = \<lparr>year = 2015, month = 1, day = 1\<rparr>\<rparr>]"

definition windows_2018 :: "obj list" where
  "windows_2018 =
     [\<lparr>obj_start = \<lparr>year = 2018, month = 1, day = 1\<rparr>, obj_end = \<lparr>year = 2019, month = 1, day = 1\<rparr>\<rparr>]"

definition example_request :: "obj \<Rightarrow> request" where
  "example_request w =
     \<lparr>req_curr_id = 123, req_header = ''EX1 Historical Data'', req_st_date = Some (obj_start w),
      req_end_date = Some (obj_end w), req_interval_sec = ''Daily''\<rparr>"

text \<open>The provider's answers to a call: the first request, the second, and so on.\<close>

definition net_two_windows :: "nat \<Rightarrow> response" where
  "net_two_windows k = (if k = 0 then page [tr_2005] else page [tr_2012])"

definition net_one_window :: "nat \<Rightarrow> response" where
  "net_one_window k = page [tr_2018_06, tr_2018_01]"

definition net_no_results_then_data :: "nat \<Rightarrow> response" where
  "net_no_results_then_data k = (if k = 0 then page [no_results_tr, tr_2005] else page [tr_2012])"

definition net_no_results_first :: "nat \<Rightarrow> response" where
  "net_no_results_first k = (if k = 0 then page [no_results_tr] else page [tr_2012])"

definition net_no_results_last :: "nat \<Rightarrow> response" where
  "net_no_results_last k = (if k = 0 then page [tr_2005] else page [no_results_tr])"

definition net_unavailable :: "nat \<Rightarrow> response" where
  "net_unavailable k = error_page 503"

definition net_empty :: "nat \<Rightarrow> response" where
  "net_empty k = empty_page"

definition net_error :: "nat \<Rightarrow> response" where
  "net_error k = (if k = 0 then page [tr_2005] else error_page 500)"

section \<open>The partitioner: number and shape of the windows\<close>


lemma date_intervals_single:
  "year e - year s \<le> 20
   \<Longrightarrow> date_intervals s e acc = Inr (acc @ [\<lparr>obj_start = s, obj_end = e\<rparr>])"
  by (simp add: date_intervals.simps)


text \<open>
  The start dates left out: a 29 February that the loop moves into a year that is not a
  leap year. From 29/02/1880 to 01/01/1910 the year difference is 30, and
  \<^verbatim>\<open>start_date.replace(year=1900)\<close> raises ValueError.
\<close>

lemma partition_feb29_raises:
  "date_intervals \<lparr>year = 1880, month = 2, day = 29\<rparr> \<lparr>year = 1910, month = 1, day = 1\<rparr> []
     = Inl (ValueError ''day is out of range for month'')"
  by (simp add: date_intervals.simps replace_year_def days_in_month_def is_leap_def)




text \<open>
  C5. When the end date is at most 20 years after the start date, the partitioner returns
  exactly one window, and it is the whole range.
\<close>

theorem partition_single_window:
  "within_20_years s e \<Longrightarrow> date_intervals s e [] = Inr [\<lparr>obj_start = s, obj_end = e\<rparr>]"
  using date_intervals_single[of e s "[]"]
  by (auto simp: within_20_years_def date_le_def date_less_def)

theorem partition_single_window_witness:
  "within_20_years \<lparr>year = 2018, month = 1, day = 1\<rparr> \<lparr>year = 2019, month = 1, day = 1\<rparr>
   \<and> date_intervals \<lparr>year = 2018, month = 1, day = 1\<rparr> \<lparr>year = 2019, month = 1, day = 1\<rparr> []
       = Inr [\<lparr>obj_start = \<lparr>year = 2018, month = 1, day = 1\<rparr>, obj_end = \<lparr>year = 2019, month = 1, day = 1\<rparr>\<rparr>]"
  using partition_single_window[of "\<lparr>year = 2018, month = 1, day = 1\<rparr>" "\<lparr>year = 2019, month = 1, day = 1\<rparr>"]
  by (simp add: within_20_years_def date_le_def date_less_def)


section \<open>Rows, windows and the loop: auxiliary facts\<close>


lemma hist_window_non_200:
  "status_code req \<noteq> 200
   \<Longrightarrow> hist_window lib l c limit req st = Inl (ConnectionError (err_0015 (status_code req)))"
  by (simp add: hist_window_def)

lemma hist_window_empty:
  "status_code req = 200 \<Longrightarrow> resp_text req = [] \<Longrightarrow> hist_window lib l c limit req st = Inr st"
  by (simp add: hist_window_def)

lemma hist_loop_length_le:
  "length posts \<le> length (fst (hist_loop lib net l ws c st posts))"
proof (induction ws arbitrary: c st posts)
  case Nil
  then show ?case by simp
next
  case (Cons w ws)
  let ?req = "\<lparr>req_curr_id = l_id l, req_header = l_header l,
                req_st_date = Some (obj_start w), req_end_date = Some (obj_end w),
                req_interval_sec = l_interval l\<rparr>"
  show ?case
  proof (cases "hist_window lib l (c + 1) (length (l_intervals l)) (net (length posts)) st")
    case (Inl e)
    then show ?thesis by (simp add: Let_def)
  next
    case (Inr st')
    have "length (posts @ [?req])
            \<le> length (fst (hist_loop lib net l ws (c + 1) st' (posts @ [?req])))"
      by (rule Cons.IH)
    then show ?thesis using Inr by (simp add: Let_def)
  qed
qed

lemma hist_loop_non_200:
  "length posts \<le> k \<Longrightarrow> k < length (fst (hist_loop lib net l ws c st posts))
   \<Longrightarrow> status_code (net k) \<noteq> 200
   \<Longrightarrow> snd (hist_loop lib net l ws c st posts)
       = Inl (ConnectionError (err_0015 (status_code (net k))))"
proof (induction ws arbitrary: c st posts)
  case Nil
  then show ?case by simp
next
  case (Cons w ws)
  let ?req = "\<lparr>req_curr_id = l_id l, req_header = l_header l,
                req_st_date = Some (obj_start w), req_end_date = Some (obj_end w),
                req_interval_sec = l_interval l\<rparr>"
  show ?case
  proof (cases "k = length posts")
    case True
    then show ?thesis using Cons.prems(3) by (simp add: Let_def hist_window_non_200)
  next
    case False
    then have gt: "length (posts @ [?req]) \<le> k" using Cons.prems(1) by simp
    show ?thesis
    proof (cases "hist_window lib l (c + 1) (length (l_intervals l)) (net (length posts)) st")
      case (Inl e)
      then have "fst (hist_loop lib net l (w # ws) c st posts) = posts @ [?req]"
        by (simp add: Let_def)
      then show ?thesis using Cons.prems(2) gt by simp
    next
      case (Inr st')
      then have eq: "hist_loop lib net l (w # ws) c st posts
                  = hist_loop lib net l ws (c + 1) st' (posts @ [?req])"
        by (simp add: Let_def)
      show ?thesis
        unfolding eq
        using Cons.prems(2) unfolding eq
        by (intro Cons.IH[OF gt _ Cons.prems(3)])
    qed
  qed
qed

lemma hist_loop_all_empty:
  "(\<And>k. length posts \<le> k \<Longrightarrow> k < length (fst (hist_loop lib net l ws c st posts))
        \<Longrightarrow> status_code (net k) = 200 \<and> resp_text (net k) = [])
   \<Longrightarrow> snd (hist_loop lib net l ws c st posts) = Inr st"
proof (induction ws arbitrary: c posts)
  case Nil
  then show ?case by simp
next
  case (Cons w ws)
  let ?req = "\<lparr>req_curr_id = l_id l, req_header = l_header l,
                req_st_date = Some (obj_start w), req_end_date = Some (obj_end w),
                req_interval_sec = l_interval l\<rparr>"
  have lt: "length posts < length (fst (hist_loop lib net l (w # ws) c st posts))"
  proof (cases "hist_window lib l (c + 1) (length (l_intervals l)) (net (length posts)) st")
    case (Inl e)
    then show ?thesis by (simp add: Let_def)
  next
    case (Inr st')
    then show ?thesis
      using hist_loop_length_le[of "posts @ [?req]" lib net l ws "c + 1" st']
      by (simp add: Let_def)
  qed
  have ok: "status_code (net (length posts)) = 200 \<and> resp_text (net (length posts)) = []"
    using Cons.prems[of "length posts"] lt by simp
  have w: "hist_window lib l (c + 1) (length (l_intervals l)) (net (length posts)) st = Inr st"
    using ok by (simp add: hist_window_empty)
  have eq: "hist_loop lib net l (w # ws) c st posts
              = hist_loop lib net l ws (c + 1) st (posts @ [?req])"
    using w by (simp add: Let_def)
  show ?case
    unfolding eq
  proof (rule Cons.IH)
    fix k assume "length (posts @ [?req]) \<le> k"
       and "k < length (fst (hist_loop lib net l ws (c + 1) st (posts @ [?req])))"
    then show "status_code (net k) = 200 \<and> resp_text (net k) = []"
      using Cons.prems[of k] unfolding eq by simp
  qed
qed

lemma is_str_iff: "is_str v = (\<exists>s. v = PyStr s)"
  by (cases v) auto

lemma is_bool_iff: "is_bool v = (\<exists>b. v = PyBool b)"
  by (cases v) auto

lemma check_args_Inr:
  "check_args certificate country as_json order interval = Inr (c, k, b, i)
   \<Longrightarrow> certificate = PyStr c \<and> country = PyStr k \<and> as_json = PyBool b \<and> interval = PyStr i
       \<and> valid_arguments certificate country as_json order interval"
  by (auto simp: check_args_def valid_arguments_def split: if_splits pyval.splits)

lemma check_args_Inl:
  "check_args certificate country as_json order interval = Inl e
   \<Longrightarrow> \<not> valid_arguments certificate country as_json order interval \<and> (\<exists>m. e = ValueError m)"
  unfolding check_args_def valid_arguments_def is_str_iff is_bool_iff
  by (auto split: if_splits)

lemma historical_prelude_Inr:
  "historical_prelude lib csv countries certificate country from_date to_date as_json order interval = Inr l
   \<Longrightarrow> as_json = PyBool (l_as_json l) \<and> l_order l = order
       \<and> valid_arguments certificate country as_json order interval
       \<and> valid_dates lib from_date to_date"
  unfolding historical_prelude_def
  by (auto simp: parse_date_def valid_dates_def date_le_def
           split: sum.splits prod.splits if_splits pyval.splits option.splits
           dest!: check_args_Inr)

lemma recent_prelude_Inr:
  "recent_prelude lib csv countries certificate country as_json order interval = Inr l
   \<Longrightarrow> as_json = PyBool (l_as_json l) \<and> l_order l = order
       \<and> valid_arguments certificate country as_json order interval"
  unfolding recent_prelude_def
  by (auto split: sum.splits prod.splits dest!: check_args_Inr)

lemma historical_unfold:
  "historical_prelude lib csv countries certificate country from_date to_date as_json order interval = Inr l
   \<Longrightarrow> get_certificate_historical_data lib csv countries net certificate country
         from_date to_date as_json order interval
       = (fst (hist_loop lib net l (l_intervals l) 0 ([], False) []),
          case snd (hist_loop lib net l (l_intervals l) 0 ([], False) []) of
            Inl e \<Rightarrow> Inl e
          | Inr st \<Rightarrow> emit l (fst st))"
  by (auto simp: get_certificate_historical_data_def split: prod.splits sum.splits)

section \<open>The example data, evaluated\<close>

lemma latin1_utc_simps:
  "str_lower latin1_utc = lower_latin1" "str_strip latin1_utc = strip_latin1"
  "unidecode latin1_utc = unidecode_latin1" "strptime_dmY latin1_utc = strptime_latin1"
  "py_int latin1_utc = int_decimal" "py_float latin1_utc = float_decimal"
  "fromtimestamp_date latin1_utc = utc_date"
  by (simp_all add: latin1_utc_def)

lemma example_intervals:
  "date_intervals \<lparr>year = 1990, month = 1, day = 1\<rparr> \<lparr>year = 2015, month = 1, day = 1\<rparr> []
     = Inr windows_1990_2015"
  "date_intervals \<lparr>year = 2018, month = 1, day = 1\<rparr> \<lparr>year = 2019, month = 1, day = 1\<rparr> []
     = Inr windows_2018"
  by (simp_all add: date_intervals.simps replace_year_def days_in_month_def windows_1990_2015_def
        windows_2018_def)

lemma example_strptime:
  "strptime_latin1 ''01/01/1990'' = Some \<lparr>year = 1990, month = 1, day = 1\<rparr>"
  "strptime_latin1 ''01/01/2015'' = Some \<lparr>year = 2015, month = 1, day = 1\<rparr>"
  "strptime_latin1 ''01/01/2018'' = Some \<lparr>year = 2018, month = 1, day = 1\<rparr>"
  "strptime_latin1 ''01/01/2019'' = Some \<lparr>year = 2019, month = 1, day = 1\<rparr>"
  "strptime_latin1 ''2019-01-01'' = None"
  by code_simp+

lemma example_resolve:
  "resolve latin1_utc example_csv example_countries ''france'' ''Example Cert''
     = Inr (''EX1'', 123, ''Example Cert'')"
  by code_simp

lemma example_check_args:
  "ord \<in> {PyStr ''ascending'', PyStr ''asc'', PyStr ''descending'', PyStr ''desc''}
   \<Longrightarrow> check_args (PyStr ''Example Cert'') (PyStr ''france'') (PyBool b) ord (PyStr ''Daily'')
       = Inr (''Example Cert'', ''france'', b, ''Daily'')"
  by (auto simp: check_args_def)

lemma example_historical_prelude:
  assumes "ord \<in> {PyStr ''ascending'', PyStr ''asc'', PyStr ''descending'', PyStr ''desc''}"
  shows "historical_prelude latin1_utc example_csv example_countries (PyStr ''Example Cert'')
           (PyStr ''france'') (PyStr ''01/01/1990'') (PyStr ''01/01/2015'') (PyBool b) ord (PyStr ''Daily'')
         = Inr (example_locals b ord windows_1990_2015)"
    and "historical_prelude latin1_utc example_csv example_countries (PyStr ''Example Cert'')
           (PyStr ''france'') (PyStr ''01/01/2018'') (PyStr ''01/01/2019'') (PyBool b) ord (PyStr ''Daily'')
         = Inr (example_locals b ord windows_2018)"
  by (simp_all add: historical_prelude_def example_check_args[OF assms] parse_date_def
        latin1_utc_simps example_strptime date_le_def date_less_def example_intervals
        example_resolve example_locals_def)

lemma example_recent_prelude:
  assumes "ord \<in> {PyStr ''ascending'', PyStr ''asc'', PyStr ''descending'', PyStr ''desc''}"
  shows "recent_prelude latin1_utc example_csv example_countries (PyStr ''Example Cert'')
           (PyStr ''france'') (PyBool b) ord (PyStr ''Daily'')
         = Inr (example_locals b ord [])"
  by (simp add: recent_prelude_def example_check_args[OF assms] example_resolve example_locals_def)


lemma example_make_data:
  "make_data latin1_utc (map data_real_value tr_2005) = Inr rec_2005"
  "make_data latin1_utc (map data_real_value tr_2012) = Inr rec_2012"
  "make_data latin1_utc (map data_real_value tr_2018_06) = Inr rec_2018_06"
  "make_data latin1_utc (map data_real_value tr_2018_01) = Inr rec_2018_01"
  by code_simp+

lemma example_first_cells:
  "tr_2005 \<noteq> []" "text_content (hd tr_2005) \<noteq> ''No results found''"
  "tr_2012 \<noteq> []" "text_content (hd tr_2012) \<noteq> ''No results found''"
  "tr_2018_06 \<noteq> []" "text_content (hd tr_2018_06) \<noteq> ''No results found''"
  "tr_2018_01 \<noteq> []" "text_content (hd tr_2018_01) \<noteq> ''No results found''"
  "no_results_tr \<noteq> []" "text_content (hd no_results_tr) = ''No results found''"
  by code_simp+

lemma hist_row_data:
  "elements \<noteq> [] \<Longrightarrow> text_content (hd elements) \<noteq> ''No results found''
   \<Longrightarrow> make_data lib (map data_real_value elements) = Inr d
   \<Longrightarrow> hist_row lib c limit elements (flag, result) = Inr (True, result @ [d])"
  by (cases elements) (simp_all add: hist_row_def)

lemma recent_row_data:
  "elements \<noteq> [] \<Longrightarrow> text_content (hd elements) \<noteq> ''No results found''
   \<Longrightarrow> make_data lib (map data_real_value elements) = Inr d
   \<Longrightarrow> recent_row lib elements result = Inr (result @ [d])"
  by (cases elements) (simp_all add: recent_row_def)

lemma hist_row_no_results:
  "elements \<noteq> [] \<Longrightarrow> text_content (hd elements) = ''No results found''
   \<Longrightarrow> hist_row lib c limit elements (flag, result)
       = (if c < limit then Inr (False, result) else Inl (IndexError err_0102))"
  by (cases elements) (simp_all add: hist_row_def)

lemma example_hist_rows:
  "hist_rows latin1_utc c limit [tr_2005] (flag, []) = Inr (True, [rec_2005])"
  "hist_rows latin1_utc c limit [tr_2012] (flag, []) = Inr (True, [rec_2012])"
  "hist_rows latin1_utc c limit [tr_2018_06, tr_2018_01] (flag, []) = Inr (True, [rec_2018_06, rec_2018_01])"
  by (simp_all add: hist_row_data example_first_cells example_make_data)

lemma example_recent_rows:
  "recent_rows latin1_utc [tr_2018_06, tr_2018_01] [] = Inr [rec_2018_06, rec_2018_01]"
  by (simp add: recent_row_data example_first_cells example_make_data)

section \<open>The order of the records\<close>

lemma apply_order_cases:
  "ord \<in> {PyStr ''ascending'', PyStr ''asc''} \<Longrightarrow> apply_order ord xs = rev xs"
  "ord \<in> {PyStr ''descending'', PyStr ''desc''} \<Longrightarrow> apply_order ord xs = xs"
  by (auto simp: apply_order_def)

lemma hist_window_order:
  assumes "oa \<in> {PyStr ''ascending'', PyStr ''asc''}" and "od \<in> {PyStr ''descending'', PyStr ''desc''}"
  shows "hist_window lib (l\<lparr>l_order := oa\<rparr>) c limit req (map rev final, flag)
         = map_sum id (map_prod (map rev) id) (hist_window lib (l\<lparr>l_order := od\<rparr>) c limit req (final, flag))"
  using assms
  by (auto simp: hist_window_def apply_order_cases to_frame_def split: sum.splits prod.splits)


lemma hist_loop_order:
  assumes "oa \<in> {PyStr ''ascending'', PyStr ''asc''}" and "od \<in> {PyStr ''descending'', PyStr ''desc''}"
  shows "hist_loop lib net (l\<lparr>l_order := oa\<rparr>) ws c (map rev final, flag) posts
         = map_prod id (map_sum id (map_prod (map rev) id))
             (hist_loop lib net (l\<lparr>l_order := od\<rparr>) ws c (final, flag) posts)"
proof (induction ws arbitrary: c final flag posts)
  case Nil
  then show ?case by simp
next
  case (Cons w ws)
  let ?r = "net (length posts)"
  let ?n = "length (l_intervals l)"
  have w: "hist_window lib (l\<lparr>l_order := oa\<rparr>) (c + 1) ?n ?r (map rev final, flag)
         = map_sum id (map_prod (map rev) id)
             (hist_window lib (l\<lparr>l_order := od\<rparr>) (c + 1) ?n ?r (final, flag))"
    by (rule hist_window_order[OF assms])
  show ?case
  proof (cases "hist_window lib (l\<lparr>l_order := od\<rparr>) (c + 1) ?n ?r (final, flag)")
    case (Inl e)
    then show ?thesis using w by (simp add: Let_def)
  next
    case (Inr st')
    obtain final' flag' where st': "st' = (final', flag')" by (cases st') auto
    show ?thesis using w Inr st' Cons.IH[of "c + 1" final' flag'] by (simp add: Let_def)
  qed
qed

lemma check_args_order:
  assumes "oa \<in> {PyStr ''ascending'', PyStr ''asc'', PyStr ''descending'', PyStr ''desc''}"
    and "od \<in> {PyStr ''ascending'', PyStr ''asc'', PyStr ''descending'', PyStr ''desc''}"
  shows "check_args certificate country as_json oa interval
         = check_args certificate country as_json od interval"
  using assms unfolding check_args_def by auto

lemma historical_prelude_order:
  assumes "oa \<in> {PyStr ''ascending'', PyStr ''asc'', PyStr ''descending'', PyStr ''desc''}"
    and "od \<in> {PyStr ''ascending'', PyStr ''asc'', PyStr ''descending'', PyStr ''desc''}"
  shows "historical_prelude lib csv countries certificate country from_date to_date as_json oa interval
         = map_sum id (\<lambda>l. l\<lparr>l_order := oa\<rparr>)
             (historical_prelude lib csv countries certificate country from_date to_date as_json od interval)"
  unfolding historical_prelude_def check_args_order[OF assms]
  by (auto split: sum.splits prod.splits)

lemma recent_prelude_order:
  assumes "oa \<in> {PyStr ''ascending'', PyStr ''asc'', PyStr ''descending'', PyStr ''desc''}"
    and "od \<in> {PyStr ''ascending'', PyStr ''asc'', PyStr ''descending'', PyStr ''desc''}"
  shows "recent_prelude lib csv countries certificate country as_json oa interval
         = map_sum id (\<lambda>l. l\<lparr>l_order := oa\<rparr>)
             (recent_prelude lib csv countries certificate country as_json od interval)"
  unfolding recent_prelude_def check_args_order[OF assms]
  by (auto split: sum.splits prod.splits)

lemma recent_response_order:
  assumes "oa \<in> {PyStr ''ascending'', PyStr ''asc''}" and "od \<in> {PyStr ''descending'', PyStr ''desc''}"
  shows "recent_response lib (l\<lparr>l_order := oa\<rparr>) req
         = map_sum id rev_returned (recent_response lib (l\<lparr>l_order := od\<rparr>) req)"
  using assms
  by (auto simp: recent_response_def apply_order_cases to_frame_def split: sum.splits)

lemma emit_rev:
  "length final \<le> 1 \<Longrightarrow> emit (l\<lparr>l_order := oa\<rparr>) (map rev final)
      = map_sum id rev_returned (emit (l\<lparr>l_order := od\<rparr>) final)"
  by (cases final) (auto simp: emit_def)

text \<open>
  C2 (as the code has it). For a fixed provider and fixed other arguments, an ascending
  order (\<^verbatim>\<open>ascending\<close>, \<^verbatim>\<open>asc\<close>) and a descending one (\<^verbatim>\<open>descending\<close>, \<^verbatim>\<open>desc\<close>)
  give: for \<^verbatim>\<open>get_certificate_recent_data\<close>, the same requests and exactly reversed
  records (or the same exception); for \<^verbatim>\<open>get_certificate_historical_data\<close>, the same
  windows in the same order with each window's series reversed on its own, so that the
  returned records are exactly reversed whenever at most one window contributed a
  series.
\<close>

theorem order_reversal_per_window:
  assumes "oa \<in> {PyStr ''ascending'', PyStr ''asc''}" and "od \<in> {PyStr ''descending'', PyStr ''desc''}"
  shows "get_certificate_recent_data lib csv countries net certificate country as_json oa interval
           = rev_outcome (get_certificate_recent_data lib csv countries net certificate country
                            as_json od interval)
       \<and> historical_final lib csv countries net certificate country from_date to_date as_json oa interval
           = map_sum id (map rev)
               (historical_final lib csv countries net certificate country from_date to_date
                  as_json od interval)
       \<and> ((case historical_final lib csv countries net certificate country from_date to_date
                   as_json od interval of
              Inl e \<Rightarrow> True
            | Inr final \<Rightarrow> length final \<le> 1)
          \<longrightarrow> get_certificate_historical_data lib csv countries net certificate country from_date
                 to_date as_json oa interval
               = rev_outcome (get_certificate_historical_data lib csv countries net certificate
                                country from_date to_date as_json od interval))"
proof -
  have va: "oa \<in> {PyStr ''ascending'', PyStr ''asc'', PyStr ''descending'', PyStr ''desc''}"
    and vd: "od \<in> {PyStr ''ascending'', PyStr ''asc'', PyStr ''descending'', PyStr ''desc''}"
    using assms by auto
  let ?Pd = "historical_prelude lib csv countries certificate country from_date to_date as_json od interval"
  let ?Pa = "historical_prelude lib csv countries certificate country from_date to_date as_json oa interval"
  have recent: "get_certificate_recent_data lib csv countries net certificate country as_json oa interval
           = rev_outcome (get_certificate_recent_data lib csv countries net certificate country
                            as_json od interval)"
  proof (cases "recent_prelude lib csv countries certificate country as_json od interval")
    case (Inl e)
    then show ?thesis
      using recent_prelude_order[OF va vd, of lib csv countries certificate country as_json interval]
      by (simp add: get_certificate_recent_data_def rev_outcome_def)
  next
    case (Inr l)
    have lo: "l_order l = od" using recent_prelude_Inr[OF Inr] by simp
    then have l: "l\<lparr>l_order := od\<rparr> = l" by simp
    show ?thesis
      using recent_prelude_order[OF va vd, of lib csv countries certificate country as_json interval]
        Inr recent_response_order[OF assms, of lib l "net 0"] l
      by (simp add: get_certificate_recent_data_def rev_outcome_def)
  qed
  have hist: "historical_final lib csv countries net certificate country from_date to_date as_json oa interval
           = map_sum id (map rev)
               (historical_final lib csv countries net certificate country from_date to_date
                  as_json od interval)
       \<and> ((case historical_final lib csv countries net certificate country from_date to_date
                   as_json od interval of
              Inl e \<Rightarrow> True
            | Inr final \<Rightarrow> length final \<le> 1)
          \<longrightarrow> get_certificate_historical_data lib csv countries net certificate country from_date
                 to_date as_json oa interval
               = rev_outcome (get_certificate_historical_data lib csv countries net certificate
                                country from_date to_date as_json od interval))"
  proof (cases ?Pd)
    case (Inl e)
    then have "?Pa = Inl e" using historical_prelude_order[OF va vd, of lib csv countries certificate country from_date to_date as_json interval]
      by simp
    then show ?thesis using Inl
      by (simp add: historical_final_def get_certificate_historical_data_def rev_outcome_def)
  next
    case (Inr l)
    have lo: "l_order l = od" using historical_prelude_Inr[OF Inr] by simp
    then have l: "l\<lparr>l_order := od\<rparr> = l" by simp
    have Pa: "?Pa = Inr (l\<lparr>l_order := oa\<rparr>)"
      using historical_prelude_order[OF va vd, of lib csv countries certificate country from_date to_date as_json interval] Inr
      by simp
    let ?Ld = "hist_loop lib net l (l_intervals l) 0 ([], False) []"
    let ?La = "hist_loop lib net (l\<lparr>l_order := oa\<rparr>) (l_intervals l) 0 ([], False) []"
    have La: "?La = map_prod id (map_sum id (map_prod (map rev) id)) ?Ld"
      using hist_loop_order[OF assms, of lib net l "l_intervals l" 0 "[]" False "[]"] l by simp
    obtain posts r where Ld: "?Ld = (posts, r)" by (cases ?Ld) auto
    show ?thesis
    proof (cases r)
      case (Inl e)
      then show ?thesis using La Ld Inr Pa
        by (simp add: historical_final_def get_certificate_historical_data_def rev_outcome_def)
    next
      case (Inr st)
      obtain final flag where st: "st = (final, flag)" by (cases st) auto
      have e: "length final \<le> 1 \<Longrightarrow> emit (l\<lparr>l_order := oa\<rparr>) (map rev final)
               = map_sum id rev_returned (emit l final)"
        using emit_rev[where final=final and l=l and oa=oa and od=od] l by simp
      show ?thesis using La Ld Inr st \<open>?Pd = Inr l\<close> Pa e
        by (simp add: historical_final_def get_certificate_historical_data_def rev_outcome_def)
    qed
  qed
  show ?thesis using recent hist by blast
qed

theorem order_reversal_per_window_witness:
  "PyStr ''ascending'' \<in> {PyStr ''ascending'', PyStr ''asc''}
   \<and> PyStr ''descending'' \<in> {PyStr ''descending'', PyStr ''desc''}
   \<and> historical_final latin1_utc example_csv example_countries net_one_window
         (PyStr ''Example Cert'') (PyStr ''france'') (PyStr ''01/01/2018'') (PyStr ''01/01/2019'')
         (PyBool False) (PyStr ''descending'') (PyStr ''Daily'')
       = Inr [[rec_2018_06, rec_2018_01]]
   \<and> get_certificate_historical_data latin1_utc example_csv example_countries net_one_window
         (PyStr ''Example Cert'') (PyStr ''france'') (PyStr ''01/01/2018'') (PyStr ''01/01/2019'')
         (PyBool False) (PyStr ''ascending'') (PyStr ''Daily'')
       = rev_outcome (get_certificate_historical_data latin1_utc example_csv example_countries
           net_one_window (PyStr ''Example Cert'') (PyStr ''france'') (PyStr ''01/01/2018'')
           (PyStr ''01/01/2019'') (PyBool False) (PyStr ''descending'') (PyStr ''Daily''))
   \<and> get_certificate_recent_data latin1_utc example_csv example_countries net_one_window
         (PyStr ''Example Cert'') (PyStr ''france'') (PyBool False) (PyStr ''ascending'') (PyStr ''Daily'')
       = rev_outcome (get_certificate_recent_data latin1_utc example_csv example_countries
           net_one_window (PyStr ''Example Cert'') (PyStr ''france'') (PyBool False)
           (PyStr ''descending'') (PyStr ''Daily''))"
proof -
  have a: "PyStr ''ascending'' \<in> {PyStr ''ascending'', PyStr ''asc''}"
    and d: "PyStr ''descending'' \<in> {PyStr ''descending'', PyStr ''desc''}"
    by simp_all
  have f: "historical_final latin1_utc example_csv example_countries net_one_window
         (PyStr ''Example Cert'') (PyStr ''france'') (PyStr ''01/01/2018'') (PyStr ''01/01/2019'')
         (PyBool False) (PyStr ''descending'') (PyStr ''Daily'')
       = Inr [[rec_2018_06, rec_2018_01]]"
    by code_simp
  show ?thesis
    using order_reversal_per_window[OF a d, of latin1_utc example_csv example_countries net_one_window
        "PyStr ''Example Cert''" "PyStr ''france''" "PyBool False" "PyStr ''Daily''"
        "PyStr ''01/01/2018''" "PyStr ''01/01/2019''"] f
    by simp
qed

text \<open>
  C2 (as stated) fails: from 01/01/1990 to 01/01/2015 there are two windows; with one
  record in each, the ascending and the descending tabular results are the same
  sequence, which is not its own reverse.
\<close>

theorem order_reversal_counterexample:
  "snd (get_certificate_historical_data latin1_utc example_csv example_countries net_two_windows
       (PyStr ''Example Cert'') (PyStr ''france'') (PyStr ''01/01/1990'') (PyStr ''01/01/2015'')
       (PyBool False) (PyStr ''ascending'') (PyStr ''Daily''))
     = Inr (DataFrame [rec_2005, rec_2012])
   \<and> snd (get_certificate_historical_data latin1_utc example_csv example_countries net_two_windows
       (PyStr ''Example Cert'') (PyStr ''france'') (PyStr ''01/01/1990'') (PyStr ''01/01/2015'')
       (PyBool False) (PyStr ''descending'') (PyStr ''Daily''))
     = Inr (DataFrame [rec_2005, rec_2012])
   \<and> rev [rec_2005, rec_2012] \<noteq> [rec_2005, rec_2012]"
  by code_simp

section \<open>Merging the windows\<close>

text \<open>
  What lines 604--607 return: in tabular mode every series of \<^verbatim>\<open>final\<close>, concatenated;
  in \<^verbatim>\<open>as_json\<close> mode the first series alone, whatever follows it.
\<close>

lemma emit_tabular:
  "\<not> l_as_json l \<Longrightarrow> final \<noteq> [] \<Longrightarrow> emit l final = Inr (DataFrame (concat final))"
  by (simp add: emit_def)

lemma emit_json:
  "l_as_json l \<Longrightarrow> emit l (series # rest) = Inr (JsonText (l_name l) ''historical'' series)"
  by (simp add: emit_def)

text \<open>
  C1. On the same two windows, each contributing one record, \<^verbatim>\<open>final\<close> holds both
  series and the tabular result is their concatenation, but the \<^verbatim>\<open>as_json\<close> result is
  \<^verbatim>\<open>json.dumps(final[0])\<close>: it holds the first window's record only, and the second
  window's record is dropped.
\<close>

theorem json_returns_first_window_only:
  "historical_final latin1_utc example_csv example_countries net_two_windows
       (PyStr ''Example Cert'') (PyStr ''france'') (PyStr ''01/01/1990'') (PyStr ''01/01/2015'')
       (PyBool True) (PyStr ''descending'') (PyStr ''Daily'')
     = Inr [[rec_2005], [rec_2012]]
   \<and> snd (get_certificate_historical_data latin1_utc example_csv example_countries net_two_windows
       (PyStr ''Example Cert'') (PyStr ''france'') (PyStr ''01/01/1990'') (PyStr ''01/01/2015'')
       (PyBool True) (PyStr ''descending'') (PyStr ''Daily''))
     = Inr (JsonText ''Example Cert'' ''historical'' [rec_2005])
   \<and> snd (get_certificate_historical_data latin1_utc example_csv example_countries net_two_windows
       (PyStr ''Example Cert'') (PyStr ''france'') (PyStr ''01/01/1990'') (PyStr ''01/01/2015'')
       (PyBool False) (PyStr ''descending'') (PyStr ''Daily''))
     = Inr (DataFrame [rec_2005, rec_2012])"
  by code_simp

section \<open>Name resolution\<close>

text \<open>
  C3. The catalog holds \<^verbatim>\<open>Example Cert\<close> and, after it, a certificate whose name has two
  accented letters. The spelling with the accents and the spelling \<^verbatim>\<open>SOCIETE X\<close> have the
  same normalized name, and both pass the membership test (which compares names through
  \<^verbatim>\<open>unidecode\<close>); but the row is then selected by comparing lower-cased names without
  \<^verbatim>\<open>unidecode\<close>, so the second spelling matches no row and \<^verbatim>\<open>idxmax\<close> selects the
  first row of the country: the two spellings resolve to different certificates.
\<close>

theorem resolve_accent_spellings_differ:
  "resolve latin1_utc example_csv example_countries ''France'' societe_x
     = Inr (''SOCX'', 456, societe_x)
   \<and> resolve latin1_utc example_csv example_countries ''FRANCE'' ''SOCIETE X''
     = Inr (''EX1'', 123, ''Example Cert'')
   \<and> unidecode_latin1 (lower_latin1 (strip_latin1 societe_x))
     = unidecode_latin1 (lower_latin1 (strip_latin1 ''SOCIETE X''))"
  by code_simp

section \<open>The row that reports no data\<close>

lemma hist_rows_append:
  "hist_rows lib c limit (xs @ ys) st
     = (case hist_rows lib c limit xs st of
          Inl e \<Rightarrow> Inl e
        | Inr st' \<Rightarrow> hist_rows lib c limit ys st')"
  by (induction xs arbitrary: st) (auto split: sum.splits)

lemma hist_window_no_results_not_last:
  assumes "status_code req = 200" and "resp_text req \<noteq> []"
    and "curr_table req = Inr (pre @ [nr])"
    and "nr \<noteq> []" and "text_content (hd nr) = ''No results found''"
    and "hist_rows lib c limit pre (flag, []) = Inr st0"
    and "c < limit"
  shows "hist_window lib l c limit req (final, flag) = Inr (final, False)"
proof -
  obtain f0 r0 where st0: "st0 = (f0, r0)" by (cases st0) auto
  have "hist_rows lib c limit (pre @ [nr]) (flag, []) = Inr (False, r0)"
    using assms(4-7) st0 by (simp add: hist_rows_append hist_row_no_results)
  then show ?thesis using assms(1-3) by (simp add: hist_window_def)
qed

lemma hist_window_no_results_last:
  assumes "status_code req = 200" and "resp_text req \<noteq> []"
    and "curr_table req = Inr (pre @ nr # post)"
    and "nr \<noteq> []" and "text_content (hd nr) = ''No results found''"
    and "hist_rows lib c limit pre (flag, []) = Inr st0"
    and "\<not> c < limit"
  shows "hist_window lib l c limit req (final, flag) = Inl (IndexError err_0102)"
proof -
  obtain f0 r0 where st0: "st0 = (f0, r0)" by (cases st0) auto
  have "hist_rows lib c limit (pre @ nr # post) (flag, []) = Inl (IndexError err_0102)"
    using assms(4-7) st0 by (simp add: hist_rows_append hist_row_no_results)
  then show ?thesis using assms(1-3) by (simp add: hist_window_def)
qed

text \<open>
  C6 (as the code has it). Take a window answered with status 200 and a non-empty body,
  in whose table the rows before a \<^verbatim>\<open>No results found\<close> row parse without an exception.
  If the window is not the last one and that row is the last row of its table, the
  window contributes nothing: the loop goes on to the next window with \<^verbatim>\<open>final\<close>
  unchanged and the data flag cleared. If the window is the last one, the call raises
  IndexError (\<^verbatim>\<open>ERR#0102\<close>), whatever \<^verbatim>\<open>final\<close> holds from earlier windows and whatever
  rows follow.
\<close>

theorem no_results_row:
  assumes "status_code (net (length posts)) = 200" and "resp_text (net (length posts)) \<noteq> []"
    and "curr_table (net (length posts)) = Inr (pre @ nr # post)"
    and "nr \<noteq> []" and "text_content (hd nr) = ''No results found''"
    and "hist_rows lib (c + 1) (length (l_intervals l)) pre (flag, []) = Inr st0"
  shows "(c + 1 < length (l_intervals l) \<and> post = []
          \<longrightarrow> hist_loop lib net l (w # ws) c (final, flag) posts
              = hist_loop lib net l ws (c + 1) (final, False)
                  (posts @ [\<lparr>req_curr_id = l_id l, req_header = l_header l,
                              req_st_date = Some (obj_start w), req_end_date = Some (obj_end w),
                              req_interval_sec = l_interval l\<rparr>]))
       \<and> (\<not> c + 1 < length (l_intervals l)
          \<longrightarrow> hist_loop lib net l (w # ws) c (final, flag) posts
              = (posts @ [\<lparr>req_curr_id = l_id l, req_header = l_header l,
                           req_st_date = Some (obj_start w), req_end_date = Some (obj_end w),
                           req_interval_sec = l_interval l\<rparr>],
                 Inl (IndexError ''ERR#0102: certificate information unavailable or not found.'')))"
proof (intro conjI impI)
  assume a: "c + 1 < length (l_intervals l) \<and> post = []"
  have "hist_window lib l (c + 1) (length (l_intervals l)) (net (length posts)) (final, flag)
          = Inr (final, False)"
    using hist_window_no_results_not_last[OF assms(1,2) _ assms(4,5,6)] assms(3) a by simp
  then show "hist_loop lib net l (w # ws) c (final, flag) posts
              = hist_loop lib net l ws (c + 1) (final, False)
                  (posts @ [\<lparr>req_curr_id = l_id l, req_header = l_header l,
                              req_st_date = Some (obj_start w), req_end_date = Some (obj_end w),
                              req_interval_sec = l_interval l\<rparr>])"
    by (simp add: Let_def)
next
  assume a: "\<not> c + 1 < length (l_intervals l)"
  have "hist_window lib l (c + 1) (length (l_intervals l)) (net (length posts)) (final, flag)
          = Inl (IndexError err_0102)"
    using hist_window_no_results_last[OF assms(1,2,3,4,5,6) a] .
  then show "hist_loop lib net l (w # ws) c (final, flag) posts
              = (posts @ [\<lparr>req_curr_id = l_id l, req_header = l_header l,
                           req_st_date = Some (obj_start w), req_end_date = Some (obj_end w),
                           req_interval_sec = l_interval l\<rparr>],
                 Inl (IndexError ''ERR#0102: certificate information unavailable or not found.''))"
    by (simp add: Let_def err_0102_def)
qed

theorem no_results_row_witness:
  "hist_loop latin1_utc net_no_results_first
       (example_locals False (PyStr ''descending'') windows_1990_2015) windows_1990_2015 0 ([], False) []
     = (map example_request windows_1990_2015, Inr ([[rec_2012]], True))
   \<and> hist_loop latin1_utc net_no_results_last
       (example_locals False (PyStr ''descending'') windows_1990_2015) (tl windows_1990_2015) 1
       ([[rec_2005]], True) [example_request (hd windows_1990_2015)]
     = (map example_request windows_1990_2015,
        Inl (IndexError ''ERR#0102: certificate information unavailable or not found.''))"
proof -
  let ?l = "example_locals False (PyStr ''descending'') windows_1990_2015"
  let ?w1 = "\<lparr>obj_start = \<lparr>year = 1990, month = 1, day = 1\<rparr>, obj_end = \<lparr>year = 2010, month = 1, day = 1\<rparr>\<rparr>"
  let ?w2 = "\<lparr>obj_start = \<lparr>year = 2010, month = 1, day = 1\<rparr>, obj_end = \<lparr>year = 2015, month = 1, day = 1\<rparr>\<rparr>"
  have ws: "windows_1990_2015 = [?w1, ?w2]" by (simp add: windows_1990_2015_def)
  have n: "length (l_intervals ?l) = 2" by (simp add: example_locals_def ws)
  have f: "status_code (net_no_results_first (length ([]::request list))) = 200"
          "resp_text (net_no_results_first (length ([]::request list))) \<noteq> []"
          "curr_table (net_no_results_first (length ([]::request list))) = Inr ([] @ no_results_tr # [])"
    by (simp_all add: net_no_results_first_def page_def)
  have r: "hist_rows latin1_utc (0 + 1) (length (l_intervals ?l)) [] (False, []) = Inr (False, [])"
    by simp
  have first: "hist_loop latin1_utc net_no_results_first ?l (?w1 # [?w2]) 0 ([], False) []
        = hist_loop latin1_utc net_no_results_first ?l [?w2] (0 + 1) ([], False)
            ([] @ [\<lparr>req_curr_id = l_id ?l, req_header = l_header ?l,
                     req_st_date = Some (obj_start ?w1), req_end_date = Some (obj_end ?w1),
                     req_interval_sec = l_interval ?l\<rparr>])"
    using no_results_row[where net=net_no_results_first and posts="[]" and pre="[]" and nr=no_results_tr
               and post="[]" and lib=latin1_utc and c=0 and l="?l" and flag=False
               and ?st0.0="(False, [])" and w="?w1" and ws="[?w2]" and final="[]",
             OF f example_first_cells(9,10) r, THEN conjunct1] n
    by simp
  have rest: "hist_loop latin1_utc net_no_results_first ?l [?w2] (0 + 1) ([], False)
            ([] @ [\<lparr>req_curr_id = l_id ?l, req_header = l_header ?l,
                     req_st_date = Some (obj_start ?w1), req_end_date = Some (obj_end ?w1),
                     req_interval_sec = l_interval ?l\<rparr>])
        = (map example_request [?w1, ?w2], Inr ([[rec_2012]], True))"
    by code_simp
  let ?p1 = "[example_request (hd windows_1990_2015)]"
  have g: "status_code (net_no_results_last (length ?p1)) = 200"
          "resp_text (net_no_results_last (length ?p1)) \<noteq> []"
          "curr_table (net_no_results_last (length ?p1)) = Inr ([] @ no_results_tr # [])"
    by (simp_all add: net_no_results_last_def page_def)
  have r2: "hist_rows latin1_utc (1 + 1) (length (l_intervals ?l)) [] (True, []) = Inr (True, [])"
    by simp
  have last: "hist_loop latin1_utc net_no_results_last ?l (?w2 # []) 1 ([[rec_2005]], True) ?p1
        = (?p1 @ [\<lparr>req_curr_id = l_id ?l, req_header = l_header ?l,
                     req_st_date = Some (obj_start ?w2), req_end_date = Some (obj_end ?w2),
                     req_interval_sec = l_interval ?l\<rparr>],
           Inl (IndexError ''ERR#0102: certificate information unavailable or not found.''))"
    using no_results_row[where net=net_no_results_last and posts="?p1" and pre="[]" and nr=no_results_tr
               and post="[]" and lib=latin1_utc and c=1 and l="?l" and flag=True
               and ?st0.0="(True, [])" and w="?w2" and ws="[]" and final="[[rec_2005]]",
             OF g example_first_cells(9,10) r2, THEN conjunct2] n
    by simp
  have reqs: "?p1 @ [\<lparr>req_curr_id = l_id ?l, req_header = l_header ?l,
                     req_st_date = Some (obj_start ?w2), req_end_date = Some (obj_end ?w2),
                     req_interval_sec = l_interval ?l\<rparr>] = map example_request windows_1990_2015"
    by (simp add: ws example_request_def example_locals_def)
  show ?thesis
    using first rest last reqs by (simp add: ws)
qed

text \<open>
  C6 (as stated) fails: the first of two windows has a \<^verbatim>\<open>No results found\<close> row followed
  by a data row; the data row sets the flag again and the window contributes its record.
\<close>

theorem no_results_row_counterexample:
  "historical_final latin1_utc example_csv example_countries net_no_results_then_data
       (PyStr ''Example Cert'') (PyStr ''france'') (PyStr ''01/01/1990'') (PyStr ''01/01/2015'')
       (PyBool False) (PyStr ''descending'') (PyStr ''Daily'')
     = Inr [[rec_2005], [rec_2012]]
   \<and> curr_table (net_no_results_then_data 0) = Inr [no_results_tr, tr_2005]
   \<and> text_content (hd no_results_tr) = ''No results found''"
  by code_simp

section \<open>Failures of the transport\<close>

text \<open>
  C7. A response with a status code other than 200 to a request that was posted makes the
  call raise ConnectionError with the message \<^verbatim>\<open>ERR#0015: error <code>, try again later.\<close>;
  nothing is returned, whatever earlier windows had contributed. For the recent fetch
  the request is the only one; for the historical fetch it is the \<open>k\<close>-th, for any \<open>k\<close>.
\<close>

theorem non_200_aborts:
  "(fst (get_certificate_recent_data lib csv countries net certificate country as_json order interval) \<noteq> []
      \<and> status_code (net 0) \<noteq> 200
    \<longrightarrow> snd (get_certificate_recent_data lib csv countries net certificate country as_json order interval)
          = Inl (ConnectionError (''ERR#0015: error '' @ str_int (status_code (net 0)) @ '', try again later.'')))
   \<and> (k < length (fst (get_certificate_historical_data lib csv countries net certificate country
                          from_date to_date as_json order interval))
      \<and> status_code (net k) \<noteq> 200
    \<longrightarrow> snd (get_certificate_historical_data lib csv countries net certificate country
                          from_date to_date as_json order interval)
          = Inl (ConnectionError (''ERR#0015: error '' @ str_int (status_code (net k)) @ '', try again later.'')))"
proof (intro conjI impI)
  assume a: "fst (get_certificate_recent_data lib csv countries net certificate country as_json order interval) \<noteq> []
      \<and> status_code (net 0) \<noteq> 200"
  then show "snd (get_certificate_recent_data lib csv countries net certificate country as_json order interval)
          = Inl (ConnectionError (''ERR#0015: error '' @ str_int (status_code (net 0)) @ '', try again later.''))"
    by (cases "recent_prelude lib csv countries certificate country as_json order interval")
       (simp_all add: get_certificate_recent_data_def recent_response_def err_0015_def)
next
  let ?H = "get_certificate_historical_data lib csv countries net certificate country
                          from_date to_date as_json order interval"
  assume a: "k < length (fst ?H) \<and> status_code (net k) \<noteq> 200"
  show "snd ?H = Inl (ConnectionError (''ERR#0015: error '' @ str_int (status_code (net k)) @ '', try again later.''))"
  proof (cases "historical_prelude lib csv countries certificate country from_date to_date as_json order interval")
    case (Inl e)
    then show ?thesis using a by (simp add: get_certificate_historical_data_def)
  next
    case (Inr l)
    let ?L = "hist_loop lib net l (l_intervals l) 0 ([], False) []"
    have f: "fst ?H = fst ?L"
      by (simp add: historical_unfold[OF Inr])
    have "snd ?L = Inl (ConnectionError (err_0015 (status_code (net k))))"
      using hist_loop_non_200[of "[]" k lib net l "l_intervals l" 0 "([], False)"] a f by simp
    then show ?thesis
      by (simp add: historical_unfold[OF Inr] err_0015_def)
  qed
qed

theorem non_200_aborts_witness:
  "fst (get_certificate_recent_data latin1_utc example_csv example_countries net_unavailable
          (PyStr ''Example Cert'') (PyStr ''france'') (PyBool False) (PyStr ''ascending'') (PyStr ''Daily'')) \<noteq> []
   \<and> status_code (net_unavailable 0) \<noteq> 200
   \<and> snd (get_certificate_recent_data latin1_utc example_csv example_countries net_unavailable
          (PyStr ''Example Cert'') (PyStr ''france'') (PyBool False) (PyStr ''ascending'') (PyStr ''Daily''))
       = Inl (ConnectionError ''ERR#0015: error 503, try again later.'')
   \<and> 1 < length (fst (get_certificate_historical_data latin1_utc example_csv example_countries net_error
          (PyStr ''Example Cert'') (PyStr ''france'') (PyStr ''01/01/1990'') (PyStr ''01/01/2015'')
          (PyBool False) (PyStr ''ascending'') (PyStr ''Daily'')))
   \<and> status_code (net_error 1) \<noteq> 200
   \<and> snd (get_certificate_historical_data latin1_utc example_csv example_countries net_error
          (PyStr ''Example Cert'') (PyStr ''france'') (PyStr ''01/01/1990'') (PyStr ''01/01/2015'')
          (PyBool False) (PyStr ''ascending'') (PyStr ''Daily''))
       = Inl (ConnectionError ''ERR#0015: error 500, try again later.'')"
proof -
  let ?R = "get_certificate_recent_data latin1_utc example_csv example_countries net_unavailable
          (PyStr ''Example Cert'') (PyStr ''france'') (PyBool False) (PyStr ''ascending'') (PyStr ''Daily'')"
  let ?H = "get_certificate_historical_data latin1_utc example_csv example_countries net_error
          (PyStr ''Example Cert'') (PyStr ''france'') (PyStr ''01/01/1990'') (PyStr ''01/01/2015'')
          (PyBool False) (PyStr ''ascending'') (PyStr ''Daily'')"
  have r: "fst ?R \<noteq> []" by code_simp
  have s: "status_code (net_unavailable 0) \<noteq> 200" "status_code (net_error 1) \<noteq> 200"
    by (simp_all add: net_unavailable_def net_error_def error_page_def)
  have h: "1 < length (fst ?H)" by code_simp
  have m: "str_int (status_code (net_unavailable 0)) = ''503''" "str_int (status_code (net_error 1)) = ''500''"
    by code_simp+
  have "snd ?R = Inl (ConnectionError (''ERR#0015: error '' @ str_int (status_code (net_unavailable 0)) @ '', try again later.''))"
    using non_200_aborts[where lib=latin1_utc and csv=example_csv and countries=example_countries
        and net=net_unavailable and certificate="PyStr ''Example Cert''" and country="PyStr ''france''"
        and as_json="PyBool False" and order="PyStr ''ascending''" and interval="PyStr ''Daily''",
        THEN conjunct1] r s(1) by blast
  moreover have "snd ?H = Inl (ConnectionError (''ERR#0015: error '' @ str_int (status_code (net_error 1)) @ '', try again later.''))"
    using non_200_aborts[where lib=latin1_utc and csv=example_csv and countries=example_countries
        and net=net_error and certificate="PyStr ''Example Cert''" and country="PyStr ''france''"
        and as_json="PyBool False" and order="PyStr ''ascending''" and interval="PyStr ''Daily''"
        and from_date="PyStr ''01/01/1990''" and to_date="PyStr ''01/01/2015''" and k=1,
        THEN conjunct2] h s(2) by blast
  ultimately have "snd ?R = Inl (ConnectionError ''ERR#0015: error 503, try again later.'')
      \<and> snd ?H = Inl (ConnectionError ''ERR#0015: error 500, try again later.'')"
    unfolding m by simp
  then show ?thesis using r s h by blast
qed

section \<open>Validation comes before the network\<close>

text \<open>
  C8. A call whose \<^verbatim>\<open>certificate\<close>, \<^verbatim>\<open>country\<close>, \<^verbatim>\<open>as_json\<close>, \<^verbatim>\<open>order\<close> or
  \<^verbatim>\<open>interval\<close> argument is invalid, or (historical fetch) whose dates are not two
  well-formed \<^verbatim>\<open>dd/mm/yyyy\<close> strs with the first before the second, posts no request and
  raises: ValueError, or TypeError for a date that is not a str.
\<close>

theorem validation_before_network:
  "(\<not> valid_arguments certificate country as_json order interval
    \<longrightarrow> fst (get_certificate_recent_data lib csv countries net certificate country as_json order interval) = []
        \<and> (\<exists>m. snd (get_certificate_recent_data lib csv countries net certificate country as_json order interval)
                  = Inl (ValueError m)))
   \<and> (\<not> (valid_arguments certificate country as_json order interval \<and> valid_dates lib from_date to_date)
    \<longrightarrow> fst (get_certificate_historical_data lib csv countries net certificate country
                 from_date to_date as_json order interval) = []
        \<and> (\<exists>m. snd (get_certificate_historical_data lib csv countries net certificate country
                       from_date to_date as_json order interval) = Inl (ValueError m)
              \<or> snd (get_certificate_historical_data lib csv countries net certificate country
                       from_date to_date as_json order interval) = Inl (TypeError m)))"
proof (intro conjI impI)
  assume nv: "\<not> valid_arguments certificate country as_json order interval"
  obtain e where "check_args certificate country as_json order interval = Inl e"
    using nv check_args_Inr[of certificate country as_json order interval]
    by (cases "check_args certificate country as_json order interval") auto
  moreover then obtain m where "e = ValueError m" using check_args_Inl by blast
  ultimately have "recent_prelude lib csv countries certificate country as_json order interval = Inl (ValueError m)"
    by (simp add: recent_prelude_def)
  then show "\<exists>m. snd (get_certificate_recent_data lib csv countries net certificate country as_json order interval)
                  = Inl (ValueError m)"
    by (simp add: get_certificate_recent_data_def)
next
  assume nv: "\<not> valid_arguments certificate country as_json order interval"
  then show "fst (get_certificate_recent_data lib csv countries net certificate country as_json order interval) = []"
    using recent_prelude_Inr[of lib csv countries certificate country as_json order interval]
    by (cases "recent_prelude lib csv countries certificate country as_json order interval")
       (auto simp: get_certificate_recent_data_def)
next
  assume nv: "\<not> (valid_arguments certificate country as_json order interval \<and> valid_dates lib from_date to_date)"
  then show "fst (get_certificate_historical_data lib csv countries net certificate country
                 from_date to_date as_json order interval) = []"
    using historical_prelude_Inr[of lib csv countries certificate country from_date to_date as_json order interval]
    by (cases "historical_prelude lib csv countries certificate country from_date to_date as_json order interval")
       (auto simp: get_certificate_historical_data_def)
next
  assume nv: "\<not> (valid_arguments certificate country as_json order interval \<and> valid_dates lib from_date to_date)"
  let ?P = "historical_prelude lib csv countries certificate country from_date to_date as_json order interval"
  have "\<exists>m. ?P = Inl (ValueError m) \<or> ?P = Inl (TypeError m)"
  proof (cases "check_args certificate country as_json order interval")
    case (Inl e)
    then obtain m where "e = ValueError m" using check_args_Inl by blast
    then show ?thesis using Inl by (simp add: historical_prelude_def)
  next
    case (Inr x)
    obtain c k b i where x: "x = (c, k, b, i)" by (cases x) auto
    have va: "valid_arguments certificate country as_json order interval"
      using check_args_Inr Inr x by blast
    then have nd: "\<not> valid_dates lib from_date to_date" using nv by simp
    show ?thesis
      using nd Inr x unfolding historical_prelude_def
      by (auto simp: parse_date_def valid_dates_def date_le_def
               split: pyval.splits option.splits)
  qed
  then show "\<exists>m. snd (get_certificate_historical_data lib csv countries net certificate country
                       from_date to_date as_json order interval) = Inl (ValueError m)
              \<or> snd (get_certificate_historical_data lib csv countries net certificate country
                       from_date to_date as_json order interval) = Inl (TypeError m)"
    by (auto simp: get_certificate_historical_data_def)
qed

theorem validation_before_network_witness:
  "\<not> valid_arguments PyNone (PyStr ''france'') (PyBool False) (PyStr ''ascending'') (PyStr ''Daily'')
   \<and> fst (get_certificate_recent_data latin1_utc example_csv example_countries net_one_window
           PyNone (PyStr ''france'') (PyBool False) (PyStr ''ascending'') (PyStr ''Daily'')) = []
   \<and> (\<exists>m. snd (get_certificate_recent_data latin1_utc example_csv example_countries net_one_window
           PyNone (PyStr ''france'') (PyBool False) (PyStr ''ascending'') (PyStr ''Daily''))
         = Inl (ValueError m))
   \<and> \<not> valid_dates latin1_utc (PyStr ''01/01/2019'') (PyStr ''01/01/2018'')
   \<and> fst (get_certificate_historical_data latin1_utc example_csv example_countries net_one_window
           (PyStr ''Example Cert'') (PyStr ''france'') (PyStr ''01/01/2019'') (PyStr ''01/01/2018'')
           (PyBool False) (PyStr ''ascending'') (PyStr ''Daily'')) = []
   \<and> snd (get_certificate_historical_data latin1_utc example_csv example_countries net_one_window
           (PyStr ''Example Cert'') (PyStr ''france'') (PyStr ''01/01/2019'') (PyStr ''01/01/2018'')
           (PyBool False) (PyStr ''ascending'') (PyStr ''Daily''))
       = Inl (ValueError err_0032)"
proof -
  have a: "\<not> valid_arguments PyNone (PyStr ''france'') (PyBool False) (PyStr ''ascending'') (PyStr ''Daily'')"
    by (simp add: valid_arguments_def)
  have b: "\<not> valid_dates latin1_utc (PyStr ''01/01/2019'') (PyStr ''01/01/2018'')"
    by (simp add: valid_dates_def latin1_utc_simps example_strptime date_less_def)
  have c: "snd (get_certificate_historical_data latin1_utc example_csv example_countries net_one_window
           (PyStr ''Example Cert'') (PyStr ''france'') (PyStr ''01/01/2019'') (PyStr ''01/01/2018'')
           (PyBool False) (PyStr ''ascending'') (PyStr ''Daily''))
       = Inl (ValueError err_0032)"
    by code_simp
  show ?thesis
    using validation_before_network[where lib=latin1_utc and csv=example_csv
        and countries=example_countries and net=net_one_window and certificate=PyNone
        and country="PyStr ''france''" and as_json="PyBool False" and order="PyStr ''ascending''"
        and interval="PyStr ''Daily''", THEN conjunct1]
      validation_before_network[where lib=latin1_utc and csv=example_csv
        and countries=example_countries and net=net_one_window and certificate="PyStr ''Example Cert''"
        and country="PyStr ''france''" and as_json="PyBool False" and order="PyStr ''ascending''"
        and interval="PyStr ''Daily''" and from_date="PyStr ''01/01/2019''"
        and to_date="PyStr ''01/01/2018''", THEN conjunct2]
      a b c
    by blast
qed

section \<open>From table cells to a price record\<close>



section \<open>Empty bodies in every window\<close>

text \<open>
  C10. When every request posted by \<^verbatim>\<open>get_certificate_historical_data\<close> is answered with
  status 200 and an empty body, the call does not return: it raises IndexError
  (\<^verbatim>\<open>list index out of range\<close>, from \<^verbatim>\<open>final[0]\<close>) when \<^verbatim>\<open>as_json\<close> is \<^verbatim>\<open>True\<close>, and
  ValueError (\<^verbatim>\<open>No objects to concatenate\<close>, from \<^verbatim>\<open>pd.concat([])\<close>) otherwise.
\<close>

theorem all_empty_bodies_raise:
  assumes "fst (get_certificate_historical_data lib csv countries net certificate country
                  from_date to_date as_json order interval) \<noteq> []"
    and "\<forall>k < length (fst (get_certificate_historical_data lib csv countries net certificate country
                  from_date to_date as_json order interval)).
            status_code (net k) = 200 \<and> resp_text (net k) = []"
  shows "snd (get_certificate_historical_data lib csv countries net certificate country
                  from_date to_date as_json order interval)
         = (if as_json = PyBool True then Inl (IndexError ''list index out of range'')
            else Inl (ValueError ''No objects to concatenate''))"
proof -
  let ?H = "get_certificate_historical_data lib csv countries net certificate country
                  from_date to_date as_json order interval"
  obtain l where l: "historical_prelude lib csv countries certificate country from_date to_date as_json order interval = Inr l"
    using assms(1)
    by (cases "historical_prelude lib csv countries certificate country from_date to_date as_json order interval")
       (auto simp: get_certificate_historical_data_def)
  let ?L = "hist_loop lib net l (l_intervals l) 0 ([], False) []"
  have f: "fst ?H = fst ?L"
    by (simp add: historical_unfold[OF l])
  have s: "snd ?L = Inr ([], False)"
    by (rule hist_loop_all_empty) (use assms(2) f in auto)
  have j: "as_json = PyBool (l_as_json l)" using historical_prelude_Inr[OF l] by simp
  have "snd ?H = emit l []"
    using s by (simp add: historical_unfold[OF l])
  then show ?thesis
    using j by (simp add: emit_def list_index_out_of_range_def no_objects_to_concatenate_def)
qed

theorem all_empty_bodies_raise_witness:
  "fst (get_certificate_historical_data latin1_utc example_csv example_countries net_empty
          (PyStr ''Example Cert'') (PyStr ''france'') (PyStr ''01/01/1990'') (PyStr ''01/01/2015'')
          (PyBool True) (PyStr ''ascending'') (PyStr ''Daily''))
     = map example_request windows_1990_2015
   \<and> status_code (net_empty 0) = 200 \<and> resp_text (net_empty 0) = []
   \<and> status_code (net_empty 1) = 200 \<and> resp_text (net_empty 1) = []
   \<and> snd (get_certificate_historical_data latin1_utc example_csv example_countries net_empty
          (PyStr ''Example Cert'') (PyStr ''france'') (PyStr ''01/01/1990'') (PyStr ''01/01/2015'')
          (PyBool True) (PyStr ''ascending'') (PyStr ''Daily''))
     = Inl (IndexError ''list index out of range'')
   \<and> snd (get_certificate_historical_data latin1_utc example_csv example_countries net_empty
          (PyStr ''Example Cert'') (PyStr ''france'') (PyStr ''01/01/1990'') (PyStr ''01/01/2015'')
          (PyBool False) (PyStr ''ascending'') (PyStr ''Daily''))
     = Inl (ValueError ''No objects to concatenate'')"
proof -
  have p: "fst (get_certificate_historical_data latin1_utc example_csv example_countries net_empty
          (PyStr ''Example Cert'') (PyStr ''france'') (PyStr ''01/01/1990'') (PyStr ''01/01/2015'')
          (PyBool b) (PyStr ''ascending'') (PyStr ''Daily''))
     = map example_request windows_1990_2015" for b
    by (cases b; code_simp)
  have ne: "map example_request windows_1990_2015 \<noteq> []" by (simp add: windows_1990_2015_def)
  have e: "status_code (net_empty k) = 200 \<and> resp_text (net_empty k) = []" for k
    by (simp add: net_empty_def empty_page_def)
  show ?thesis
    using all_empty_bodies_raise[where lib=latin1_utc and csv=example_csv and countries=example_countries
        and net=net_empty and certificate="PyStr ''Example Cert''" and country="PyStr ''france''"
        and from_date="PyStr ''01/01/1990''" and to_date="PyStr ''01/01/2015''"
        and as_json="PyBool True" and order="PyStr ''ascending''" and interval="PyStr ''Daily''"]
      all_empty_bodies_raise[where lib=latin1_utc and csv=example_csv and countries=example_countries
        and net=net_empty and certificate="PyStr ''Example Cert''" and country="PyStr ''france''"
        and from_date="PyStr ''01/01/1990''" and to_date="PyStr ''01/01/2015''"
        and as_json="PyBool False" and order="PyStr ''ascending''" and interval="PyStr ''Daily''"]
      p ne e
    by simp
qed

end
